theory Spec2Isabelle
  imports Complex_Main "HOL-Library.Multiset"
begin

section \<open>Constants of the module\<close>

definition SEED :: nat where
  "SEED = 12345"

definition FEATURE_DIM :: nat where
  "FEATURE_DIM = 4"

section \<open>Feature-map catalog\<close>

text \<open>
  A circuit is the number of its qubits and the instructions appended so far. The body
  that the library class \<open>ZFeatureMap\<close> builds is kept as one opaque instruction
  \<open>ZEncoding n reps\<close>; the only gate the module appends itself is \<open>CX\<close>.
\<close>

datatype gate = ZEncoding nat nat | CX nat nat

record circuit =
  num_qubits :: nat
  data :: "gate list"

definition ZFeatureMap :: "nat \<Rightarrow> nat \<Rightarrow> circuit" where
  "ZFeatureMap n reps = \<lparr>num_qubits = n, data = [ZEncoding n reps]\<rparr>"

definition cx :: "circuit \<Rightarrow> nat \<Rightarrow> nat \<Rightarrow> circuit" where
  "cx circ a b = circ\<lparr>data := data circ @ [CX a b]\<rparr>"

text \<open>
  \<^verbatim>\<open>for i in range(circ.num_qubits-1): circ.cx(i,i+1)\<close>: the range is fixed when the
  loop starts; \<open>range\<close> of a negative number is empty, as is \<open>[0..<0 - 1]\<close> on \<open>nat\<close>.
\<close>

definition add_linear_entanglement :: "circuit \<Rightarrow> circuit" where
  "add_linear_entanglement circ =
     foldl (\<lambda>c i. cx c i (i + 1)) circ [0..<num_qubits circ - 1]"

text \<open>A Python dict keeps insertion order; assigning to a present key keeps its place.\<close>

fun dict_set :: "('k \<times> 'v) list \<Rightarrow> 'k \<Rightarrow> 'v \<Rightarrow> ('k \<times> 'v) list" where
  "dict_set [] k v = [(k, v)]"
| "dict_set ((k', v') # m) k v =
     (if k' = k then (k, v) # m else (k', v') # dict_set m k v)"

type_synonym feature_map = "circuit \<times> real"

definition build_maps :: "(string \<times> feature_map) list" where
  "build_maps =
     (let maps = [];
          maps = dict_set maps ''ZF-reps1'' (ZFeatureMap FEATURE_DIM 1, 1);
          maps = dict_set maps ''ZF-reps2'' (ZFeatureMap FEATURE_DIM 2, 1);
          maps = dict_set maps ''ZF-alpha05'' (ZFeatureMap FEATURE_DIM 1, 1 / 2);
          circ_lin = ZFeatureMap FEATURE_DIM 1;
          maps = dict_set maps ''ZF-LinEnt'' (add_linear_entanglement circ_lin, 1);
          circ_lin_a = ZFeatureMap FEATURE_DIM 1;
          maps = dict_set maps ''ZF-alpha05-LinEnt'' (add_linear_entanglement circ_lin_a, 1 / 2)
      in maps)"

section \<open>Data, errors and library calls\<close>

type_synonym features = "real list list"
type_synonym labels = "int list"
type_synonym matrix = "real list list"
type_synonym split = "nat list \<times> nat list"

datatype error =
    NameError string
  | IndexError
  | TypeError
  | LibraryError string

text \<open>
  The calls into the libraries that compute something: a kernel evaluation, a fit, a
  prediction. Every run returns the calls it made, in order, next to its outcome.
\<close>

datatype call =
    KernelEvaluate circuit features "features option"
  | SVCFit "real option" matrix labels
  | SVCPredict matrix
  | GridSearchFit string nat features labels
  | EstimatorPredict string features

type_synonym 'a run = "call list \<times> (error + 'a)"

definition ret :: "'a \<Rightarrow> 'a run" where
  "ret x = ([], Inr x)"

definition lift :: "error + 'a \<Rightarrow> 'a run" where
  "lift r = ([], r)"

definition called :: "call \<Rightarrow> error + 'a \<Rightarrow> 'a run" where
  "called c r = ([c], r)"

definition bind :: "'a run \<Rightarrow> ('a \<Rightarrow> 'b run) \<Rightarrow> 'b run" where
  "bind m f =
     (case m of
        (l, Inl e) \<Rightarrow> (l, Inl e)
      | (l, Inr x) \<Rightarrow> (case f x of (l', r) \<Rightarrow> (l @ l', r)))"

text \<open>A \<open>for\<close> loop that appends one result per element; an exception ends it.\<close>

fun for_each :: "('a \<Rightarrow> 'b run) \<Rightarrow> 'a list \<Rightarrow> 'b list run" where
  "for_each f [] = ret []"
| "for_each f (x # xs) = bind (f x) (\<lambda>y. bind (for_each f xs) (\<lambda>ys. ret (y # ys)))"

text \<open>A \<open>for\<close> loop that updates local variables \<open>s\<close>.\<close>

fun for_state :: "('s \<Rightarrow> 'a \<Rightarrow> 's run) \<Rightarrow> 's \<Rightarrow> 'a list \<Rightarrow> 's run" where
  "for_state f s [] = ret s"
| "for_state f s (x # xs) = bind (f s x) (\<lambda>s'. for_state f s' xs)"

subsection \<open>Array indexing and reductions\<close>

text \<open>
  \<open>a[idx]\<close> with an index array selects rows; an index past the end raises. The index
  arrays of this module come from the splitters and are never negative.
\<close>

definition np_take :: "'a list \<Rightarrow> nat list \<Rightarrow> error + 'a list" where
  "np_take a idx =
     (if list_all (\<lambda>i. i < length a) idx then Inr (map (\<lambda>i. a ! i) idx) else Inl IndexError)"

text \<open>
  \<open>a[:,idx]\<close> selects columns in every row of an array with \<open>n\<close> columns. The indices
  are checked against \<open>n\<close> also when the array has no row.
\<close>

fun np_take_cols :: "nat \<Rightarrow> matrix \<Rightarrow> nat list \<Rightarrow> error + matrix" where
  "np_take_cols n [] idx = (if list_all (\<lambda>j. j < n) idx then Inr [] else Inl IndexError)"
| "np_take_cols n (r # rs) idx =
     (case np_take r idx of
        Inl e \<Rightarrow> Inl e
      | Inr r' \<Rightarrow> (case np_take_cols n rs idx of Inl e \<Rightarrow> Inl e | Inr rs' \<Rightarrow> Inr (r' # rs')))"

text \<open>The number of columns of a matrix (\<open>0\<close> for the matrix of no sample).\<close>

definition ncols :: "matrix \<Rightarrow> nat" where
  "ncols K = (case K of [] \<Rightarrow> 0 | r # rs \<Rightarrow> length r)"

text \<open>\<open>K[rows][:,cols]\<close>: selecting rows keeps the number of columns.\<close>

definition sub_block :: "matrix \<Rightarrow> nat list \<Rightarrow> nat list \<Rightarrow> error + matrix" where
  "sub_block K rows cols =
     (case np_take K rows of Inl e \<Rightarrow> Inl e | Inr Kr \<Rightarrow> np_take_cols (ncols K) Kr cols)"

definition np_scale :: "features \<Rightarrow> real \<Rightarrow> features" where
  "np_scale X c = map (map (\<lambda>v. v * c)) X"

text \<open>
  \<open>np.mean\<close> and \<open>np.std\<close> over exact reals. On an empty list \<open>np.mean\<close> gives nan
  (and every comparison with nan is false); here it is \<open>0\<close>, and \<open>0 > 0\<close> is false too.
  numpy computes in 64-bit floating point: its mean can differ from the exact one in the
  last place, so two means that are equal here need not compare equal there (a mean of
  zeros is exactly 0 in both, and a mean of values in [0,1] stays in [0,1]).
\<close>

definition np_mean :: "real list \<Rightarrow> real" where
  "np_mean xs = sum_list xs / real (length xs)"

definition np_std :: "real list \<Rightarrow> real" where
  "np_std xs = sqrt (np_mean (map (\<lambda>x. (abs (x - np_mean xs))\<^sup>2) xs))"

subsection \<open>The libraries, as parameters\<close>

text \<open>
  scikit-learn and the quantum kernel are not part of the module: what they compute is a
  parameter. Kernel evaluations and fits may raise; splitters, scalers, predictions and
  metrics return. \<open>'m\<close> is a fitted precomputed-kernel classifier, \<open>'g\<close> a fitted grid
  search. \<open>gs_fit\<close> also returns the wall-clock seconds measured around the fit.
  \<open>sss_split\<close> takes \<open>n_splits\<close>, \<open>test_size\<close> and \<open>random_state\<close>, \<open>skf_split\<close>
  (always shuffling) \<open>n_splits\<close> and \<open>random_state\<close>, \<open>minmax_scaler\<close> the target range,
  \<open>qk_evaluate\<close> the circuit of the feature map, \<open>svc_fit\<close> the value given for \<open>C\<close>,
  \<open>gs_fit\<close> the estimator, its grid and \<open>cv\<close>; each then takes its data.
  The splitters of scikit-learn raise on data too small for the requested number of
  splits or folds; here they return whatever list the parameter gives, and what is
  proved of a run assumes only what it states of that list.
\<close>

datatype estimator = LogisticRegression nat | SVC string

type_synonym grid = "(string \<times> real list) list"

record ('m, 'g) library =
  standard_scaler :: "features \<Rightarrow> features"
  minmax_scaler :: "real \<times> real \<Rightarrow> features \<Rightarrow> features"
  sss_split :: "nat \<Rightarrow> real \<Rightarrow> nat \<Rightarrow> features \<Rightarrow> labels \<Rightarrow> split list"
  skf_split :: "nat \<Rightarrow> nat \<Rightarrow> matrix \<Rightarrow> labels \<Rightarrow> split list"
  qk_evaluate :: "circuit \<Rightarrow> features \<Rightarrow> features option \<Rightarrow> error + matrix"
  svc_fit :: "real option \<Rightarrow> matrix \<Rightarrow> labels \<Rightarrow> error + 'm"
  svc_predict :: "'m \<Rightarrow> matrix \<Rightarrow> labels"
  gs_fit :: "estimator \<Rightarrow> grid \<Rightarrow> nat \<Rightarrow> features \<Rightarrow> labels \<Rightarrow> error + ('g \<times> real)"
  gs_predict :: "'g \<Rightarrow> features \<Rightarrow> labels"
  accuracy_score :: "labels \<Rightarrow> labels \<Rightarrow> real"
  f1_score :: "labels \<Rightarrow> labels \<Rightarrow> real"

section \<open>Quantum evaluator\<close>

text \<open>One fold of the inner cross-validation (the body of the loop over \<open>skf.split\<close>).\<close>

definition cv_fold ::
  "('m, 'g) library \<Rightarrow> matrix \<Rightarrow> labels \<Rightarrow> real \<Rightarrow> split \<Rightarrow> real run" where
  "cv_fold lib Ktr ytr C fd =
     (case fd of (tri, vali) \<Rightarrow>
        bind (lift (sub_block Ktr tri tri)) (\<lambda>Ktt.
        bind (lift (np_take ytr tri)) (\<lambda>ytt.
        bind (called (SVCFit (Some C) Ktt ytt) (svc_fit lib (Some C) Ktt ytt)) (\<lambda>svc.
        bind (lift (np_take ytr vali)) (\<lambda>yv.
        bind (lift (sub_block Ktr vali tri)) (\<lambda>Kvt.
        bind (called (SVCPredict Kvt) (Inr (svc_predict lib svc Kvt))) (\<lambda>pred.
        ret (accuracy_score lib yv pred))))))))"

text \<open>The mean validation accuracy of one candidate \<open>C\<close>.\<close>

definition cv_mean :: "('m, 'g) library \<Rightarrow> matrix \<Rightarrow> labels \<Rightarrow> real \<Rightarrow> real run" where
  "cv_mean lib Ktr ytr C =
     bind (for_each (cv_fold lib Ktr ytr C) (skf_split lib 10 SEED Ktr ytr)) (\<lambda>acc_fold.
     ret (np_mean acc_fold))"

text \<open>\<^verbatim>\<open>if m > maxAcc: maxAcc = m; bestC = C\<close> on the pair \<open>(bestC, maxAcc)\<close>.\<close>

definition keep_best :: "real option \<times> real \<Rightarrow> real \<Rightarrow> real \<Rightarrow> real option \<times> real" where
  "keep_best st C m = (case st of (bestC, maxAcc) \<Rightarrow> if m > maxAcc then (Some C, m) else (bestC, maxAcc))"

definition candidates :: "real list" where
  "candidates = [1 / 10, 1, 10]"

definition select_C :: "('m, 'g) library \<Rightarrow> matrix \<Rightarrow> labels \<Rightarrow> (real option \<times> real) run" where
  "select_C lib Ktr ytr =
     for_state (\<lambda>st C. bind (cv_mean lib Ktr ytr C) (\<lambda>m. ret (keep_best st C m)))
       (None, 0) candidates"

text \<open>One train/test split of one feature map (the body of the loop over \<open>sss.split\<close>).\<close>

definition eval_split ::
  "('m, 'g) library \<Rightarrow> feature_map \<Rightarrow> features \<Rightarrow> labels \<Rightarrow> split \<Rightarrow> (real \<times> real) run" where
  "eval_split lib fm Xs y sp =
     (case fm of (fmap, data_scale) \<Rightarrow> case sp of (tr, ts) \<Rightarrow>
        bind (lift (np_take Xs tr)) (\<lambda>Xtr_raw.
        bind (lift (np_take Xs ts)) (\<lambda>Xts_raw.
        bind (lift (np_take y tr)) (\<lambda>ytr.
        bind (lift (np_take y ts)) (\<lambda>yts.
        let Xtr = np_scale Xtr_raw data_scale;
            Xts = np_scale Xts_raw data_scale
        in
        bind (called (KernelEvaluate fmap Xtr None) (qk_evaluate lib fmap Xtr None)) (\<lambda>Ktr.
        bind (called (KernelEvaluate fmap Xts (Some Xtr)) (qk_evaluate lib fmap Xts (Some Xtr))) (\<lambda>Kts.
        bind (select_C lib Ktr ytr) (\<lambda>best.
        bind (called (SVCFit (fst best) Ktr ytr) (svc_fit lib (fst best) Ktr ytr)) (\<lambda>svc.
        bind (called (SVCPredict Kts) (Inr (svc_predict lib svc Kts))) (\<lambda>pred.
        ret (accuracy_score lib yts pred, f1_score lib yts pred)))))))))))"

record qrow =
  qmap :: string
  acc_mean :: real
  acc_std :: real
  f1_mean :: real

text \<open>All splits of one feature map, and its summary row.\<close>

definition eval_map ::
  "('m, 'g) library \<Rightarrow> features \<Rightarrow> labels \<Rightarrow> string \<times> feature_map \<Rightarrow> qrow run" where
  "eval_map lib Xs y entry =
     (case entry of (name, fm) \<Rightarrow>
        bind (for_each (eval_split lib fm Xs y) (sss_split lib 10 (3 / 10) SEED Xs y)) (\<lambda>res.
        let accs = map fst res; f1s = map snd res
        in ret \<lparr>qmap = name, acc_mean = np_mean accs, acc_std = np_std accs,
                f1_mean = np_mean f1s\<rparr>))"

definition eval_qsvm :: "('m, 'g) library \<Rightarrow> features \<Rightarrow> labels \<Rightarrow> qrow list run" where
  "eval_qsvm lib X y =
     (let Xs = minmax_scaler lib (0, pi) X
      in for_each (eval_map lib Xs y) build_maps)"

section \<open>Classical evaluator\<close>

definition np_logspace :: "real \<Rightarrow> real \<Rightarrow> nat \<Rightarrow> real list" where
  "np_logspace start stop num =
     map (\<lambda>i. 10 powr (start + real i * (stop - start) / real (num - 1))) [0..<num]"

definition classical_grids :: "(string \<times> estimator \<times> grid) list" where
  "classical_grids =
     (let gammas = np_logspace (- 3) 1 5
      in [(''LogReg'', (LogisticRegression 2000, [(''C'', [1 / 10, 1, 10])])),
          (''SVM-linear'', (SVC ''linear'', [(''C'', [1 / 10, 1, 10])])),
          (''SVM-poly'', (SVC ''poly'',
             [(''degree'', [3, 4, 5]), (''C'', [1 / 10, 1, 10]), (''coef0'', [0, 1])])),
          (''SVM-rbf'', (SVC ''rbf'', [(''C'', [1 / 10, 1, 10]), (''gamma'', gammas)]))])"

text \<open>A row of the classical table; the columns are split, model, acc, f1, time.\<close>

record crow =
  c_split :: nat
  c_model :: string
  c_acc :: real
  c_f1 :: real
  c_time :: real

definition enumerate_from :: "nat \<Rightarrow> 'a list \<Rightarrow> (nat \<times> 'a) list" where
  "enumerate_from k xs = zip [k..<k + length xs] xs"

text \<open>The body of the loop over \<open>classical_grids().items()\<close>.\<close>

definition eval_model ::
  "('m, 'g) library \<Rightarrow> nat \<Rightarrow> features \<Rightarrow> features \<Rightarrow> labels \<Rightarrow> labels \<Rightarrow>
   string \<times> estimator \<times> grid \<Rightarrow> crow run" where
  "eval_model lib sp Xtr Xts ytr yts entry =
     (case entry of (m, clf, grid) \<Rightarrow>
        bind (called (GridSearchFit m 3 Xtr ytr) (gs_fit lib clf grid 3 Xtr ytr)) (\<lambda>fitted.
        case fitted of (gs, dur) \<Rightarrow>
        bind (called (EstimatorPredict m Xts) (Inr (gs_predict lib gs Xts))) (\<lambda>pred.
        ret \<lparr>c_split = sp, c_model = m, c_acc = accuracy_score lib yts pred,
             c_f1 = f1_score lib yts pred, c_time = dur\<rparr>)))"

text \<open>The body of the loop over \<open>enumerate(sss.split(Xs,y),1)\<close>.\<close>

definition eval_classical_split ::
  "('m, 'g) library \<Rightarrow> features \<Rightarrow> labels \<Rightarrow> nat \<times> split \<Rightarrow> crow list run" where
  "eval_classical_split lib Xs y numbered =
     (case numbered of (sp, tr, ts) \<Rightarrow>
        bind (lift (np_take Xs tr)) (\<lambda>Xtr.
        bind (lift (np_take Xs ts)) (\<lambda>Xts.
        bind (lift (np_take y tr)) (\<lambda>ytr.
        bind (lift (np_take y ts)) (\<lambda>yts.
        for_each (eval_model lib sp Xtr Xts ytr yts) classical_grids)))))"

definition eval_classical :: "('m, 'g) library \<Rightarrow> features \<Rightarrow> labels \<Rightarrow> crow list run" where
  "eval_classical lib X y =
     (let Xs = standard_scaler lib X
      in bind (for_each (eval_classical_split lib Xs y)
                 (enumerate_from 1 (sss_split lib 3 (3 / 10) SEED Xs y))) (\<lambda>rows.
         ret (concat rows)))"

section \<open>Module namespace and dataset provider\<close>

text \<open>
  What a global name of the module can be bound to, as far as this module uses it.
\<close>

datatype pyobj =
    Array2 features
  | Array1 labels
  | IntConst nat
  | DataGen "nat \<Rightarrow> nat \<Rightarrow> nat \<Rightarrow> real \<Rightarrow> error + (features \<times> labels \<times> features \<times> labels)"
  | Other

type_synonym namespace = "string \<rightharpoonup> pyobj"

definition lookup :: "namespace \<Rightarrow> string \<Rightarrow> error + pyobj" where
  "lookup ns name = (case ns name of None \<Rightarrow> Inl (NameError name) | Some v \<Rightarrow> Inr v)"

text \<open>
  The names the module's top-level statements bind before the entry-point block, in the
  order of the file: the imports, \<open>SEED\<close>, \<open>sampler\<close>, \<open>fidelity\<close>, the functions and
  \<open>FEATURE_DIM\<close>.
\<close>

definition module_bindings :: "(string \<times> pyobj) list" where
  "module_bindings =
     [(''warnings'', Other), (''time'', Other), (''np'', Other), (''pd'', Other),
      (''sns'', Other), (''plt'', Other),
      (''datasets'', Other),
      (''StandardScaler'', Other), (''MinMaxScaler'', Other),
      (''accuracy_score'', Other), (''f1_score'', Other),
      (''StratifiedShuffleSplit'', Other), (''GridSearchCV'', Other),
      (''StratifiedKFold'', Other),
      (''LogisticRegression'', Other),
      (''SVC'', Other),
      (''QuantumCircuit'', Other),
      (''ZFeatureMap'', Other),
      (''StatevectorSampler'', Other),
      (''ComputeUncompute'', Other),
      (''FidelityQuantumKernel'', Other),
      (''SEED'', IntConst SEED),
      (''sampler'', Other),
      (''fidelity'', Other),
      (''load_dataset'', Other),
      (''classical_grids'', Other),
      (''eval_classical'', Other),
      (''FEATURE_DIM'', IntConst FEATURE_DIM),
      (''add_linear_entanglement'', Other),
      (''build_maps'', Other),
      (''eval_qsvm'', Other)]"

definition module_namespace :: namespace where
  "module_namespace = foldl (\<lambda>ns (name, v). ns(name \<mapsto> v)) Map.empty module_bindings"

text \<open>\<^verbatim>\<open>y[y == 0] = -1\<close>\<close>

definition remap_labels :: "labels \<Rightarrow> labels" where
  "remap_labels y = map (\<lambda>v. if v = 0 then - 1 else v) y"

text \<open>
  \<open>load_dataset\<close> reads four global names when it is called: the callee first, then the
  arguments in the order they are written. The generator is given the sizes, the
  dimension and the gap \<open>0.3\<close>; its two flags are constants and left out.
\<close>

definition load_dataset :: "namespace \<Rightarrow> error + (features \<times> labels \<times> features \<times> labels)" where
  "load_dataset ns =
     (case lookup ns ''ad_hoc_data'' of Inl e \<Rightarrow> Inl e | Inr gen \<Rightarrow>
      case lookup ns ''TRAIN_SIZE'' of Inl e \<Rightarrow> Inl e | Inr training_size \<Rightarrow>
      case lookup ns ''TEST_SIZE'' of Inl e \<Rightarrow> Inl e | Inr test_size \<Rightarrow>
      case lookup ns ''FEATURE_DIM'' of Inl e \<Rightarrow> Inl e | Inr n \<Rightarrow>
      (case (gen, training_size, test_size, n) of
         (DataGen g, IntConst a, IntConst b, IntConst d) \<Rightarrow>
           (case g a b d (3 / 10) of
              Inl e \<Rightarrow> Inl e
            | Inr (X_tr, y_tr, X_ts, y_ts) \<Rightarrow>
                Inr (X_tr, remap_labels y_tr, X_ts, remap_labels y_ts))
       | _ \<Rightarrow> Inl TypeError))"

section \<open>Report aggregator and entry point\<close>

text \<open>
  \<open>sort_values('acc_mean', ascending=False)\<close> returns a new frame and leaves its
  argument as it was. pandas sorts descending by reversing, sorting ascending, and
  reversing again. Its default algorithm is not stable, so the order it gives to rows of
  equal mean is not fixed; the order chosen here among such rows is one of the possible
  ones, and only sortedness and the rows themselves are used below.
\<close>

definition sort_values_desc :: "qrow list \<Rightarrow> qrow list" where
  "sort_values_desc df = rev (sort_key acc_mean (rev df))"

datatype sheet = ClassicalSheet "crow list" | QuantumSheet "qrow list"

type_synonym workbook = "(string \<times> sheet) list"

text \<open>
  What \<open>print\<close> is given: a text (the leading newlines and the glyphs outside ASCII
  of the source's messages are left out), the frame of per-model statistics that pandas computes from the classical
  rows (its layout is not modelled), or a quantum frame.
\<close>

datatype out =
    Text string
  | GroupedStats "crow list"
  | QuantumFrame "qrow list"

record world =
  console :: "out list"
  files :: "string \<rightharpoonup> workbook"
  saved :: "string list"

definition print :: "world \<Rightarrow> out \<Rightarrow> world" where
  "print w x = w\<lparr>console := console w @ [x]\<rparr>"

definition to_excel :: "workbook \<Rightarrow> string \<Rightarrow> sheet \<Rightarrow> workbook" where
  "to_excel wb sheet_name sh = wb @ [(sheet_name, sh)]"

text \<open>Leaving the \<open>with pd.ExcelWriter(path)\<close> block saves the workbook at \<open>path\<close>.\<close>

definition save_workbook :: "world \<Rightarrow> string \<Rightarrow> workbook \<Rightarrow> world" where
  "save_workbook w path wb = w\<lparr>files := (files w)(path \<mapsto> wb), saved := saved w @ [path]\<rparr>"

definition as_features :: "pyobj \<Rightarrow> error + features" where
  "as_features v = (case v of Array2 X \<Rightarrow> Inr X | _ \<Rightarrow> Inl TypeError)"

definition as_labels :: "pyobj \<Rightarrow> error + labels" where
  "as_labels v = (case v of Array1 y \<Rightarrow> Inr y | _ \<Rightarrow> Inl TypeError)"

text \<open>
  Reading the two arguments of an evaluator call: \<open>X_raw\<close> is looked up before \<open>y_raw\<close>.
\<close>

definition read_args :: "namespace \<Rightarrow> error + (features \<times> labels)" where
  "read_args ns =
     (case lookup ns ''X_raw'' of Inl e \<Rightarrow> Inl e | Inr xo \<Rightarrow>
      case lookup ns ''y_raw'' of Inl e \<Rightarrow> Inl e | Inr yo \<Rightarrow>
      case as_features xo of Inl e \<Rightarrow> Inl e | Inr X \<Rightarrow>
      case as_labels yo of Inl e \<Rightarrow> Inl e | Inr y \<Rightarrow> Inr (X, y))"

definition out_path :: string where
  "out_path = ''Resultados_IrisLineal_QBoost.xlsx''"

text \<open>
  The entry-point block. It returns the world it leaves, the library calls made, and
  whether it ended normally.
\<close>

definition main ::
  "('m, 'g) library \<Rightarrow> namespace \<Rightarrow> world \<Rightarrow> world \<times> call list \<times> (error + unit)" where
  "main lib ns w0 =
     (let w1 = print w0 (Text ''Evaluando clasicos...'')
      in case read_args ns of Inl e \<Rightarrow> (w1, [], Inl e) | Inr (X, y) \<Rightarrow>
         case eval_classical lib X y of (l1, Inl e) \<Rightarrow> (w1, l1, Inl e) | (l1, Inr df_c) \<Rightarrow>
         let w2 = print w1 (GroupedStats df_c);
             w3 = print w2 (Text ''Evaluando Kernles Cuanticos con feature-maps mejorados...'')
         in case read_args ns of Inl e \<Rightarrow> (w3, l1, Inl e) | Inr (X', y') \<Rightarrow>
            case eval_qsvm lib X' y' of (l2, Inl e) \<Rightarrow> (w3, l1 @ l2, Inl e) | (l2, Inr df_q) \<Rightarrow>
            let w4 = print w3 (QuantumFrame (sort_values_desc df_q));
                wb = [];
                wb = to_excel wb ''Clasicos'' (ClassicalSheet df_c);
                wb = to_excel wb ''Cuanticos'' (QuantumSheet df_q);
                w5 = save_workbook w4 out_path wb;
                w6 = print w5 (Text (''Resultados guardados en '' @ out_path))
            in (w6, l1 @ l2, Inr ()))"

text \<open>Reading a saved workbook back: its sheet names, and the rows of its quantum sheet.\<close>

definition sheet_names :: "world \<Rightarrow> string \<Rightarrow> string list option" where
  "sheet_names w path = map_option (map fst) (files w path)"

definition quantum_sheet :: "world \<Rightarrow> string \<Rightarrow> string \<Rightarrow> qrow list option" where
  "quantum_sheet w path sheet_name =
     (case files w path of
        None \<Rightarrow> None
      | Some wb \<Rightarrow>
          (case map_of wb sheet_name of Some (QuantumSheet rows) \<Rightarrow> Some rows | _ \<Rightarrow> None))"

section \<open>The calls a split is expected to make\<close>

text \<open>
  The description that the kernel claim gives of one split, written out as a list of
  calls, to be compared with the calls that \<open>eval_split\<close> makes: per candidate and per
  fold one fit on the block \<open>Ktr[tri][:,tri]\<close> and one prediction on the block
  \<open>Ktr[vali][:,tri]\<close>, all cut from the one matrix \<open>Ktr\<close>.
\<close>

fun is_kernel_call :: "call \<Rightarrow> bool" where
  "is_kernel_call (KernelEvaluate fmap A B) = True"
| "is_kernel_call c = False"

definition the_rows :: "'a list \<Rightarrow> nat list \<Rightarrow> 'a list" where
  "the_rows a idx = map (\<lambda>i. a ! i) idx"

definition the_block :: "matrix \<Rightarrow> nat list \<Rightarrow> nat list \<Rightarrow> matrix" where
  "the_block K rows cols = map (\<lambda>r. the_rows r cols) (the_rows K rows)"

definition sliced_fold_calls :: "matrix \<Rightarrow> labels \<Rightarrow> real \<Rightarrow> split \<Rightarrow> call list" where
  "sliced_fold_calls Ktr ytr C fd =
     [SVCFit (Some C) (the_block Ktr (fst fd) (fst fd)) (the_rows ytr (fst fd)),
      SVCPredict (the_block Ktr (snd fd) (fst fd))]"

definition sliced_cv_calls :: "split list \<Rightarrow> matrix \<Rightarrow> labels \<Rightarrow> call list" where
  "sliced_cv_calls folds Ktr ytr =
     concat (map (\<lambda>C. concat (map (sliced_fold_calls Ktr ytr C) folds)) candidates)"

section \<open>A small library instance\<close>

text \<open>
  An instance of the library parameters, to run the evaluators on concrete data. The
  metrics are the usual ones: the fraction of agreeing positions, and F1 of the class
  \<open>1\<close> (\<open>0\<close> when there is no positive at all). The kernel is constant (\<open>1\<close> for a
  circuit with more than one instruction, \<open>0\<close> otherwise); the classifier stores its
  training labels and predicts by the sign of the kernel-weighted vote; a fit rejects a
  missing or non-positive \<open>C\<close>. The shuffle split holds out the last sample, the k-fold
  split holds out one sample at a time.
\<close>

definition demo_accuracy :: "labels \<Rightarrow> labels \<Rightarrow> real" where
  "demo_accuracy yt yp =
     (if yt = [] then 0
      else real (length (filter (\<lambda>p. fst p = snd p) (zip yt yp))) / real (length yt))"

definition demo_f1 :: "labels \<Rightarrow> labels \<Rightarrow> real" where
  "demo_f1 yt yp =
     (let tp = length (filter (\<lambda>p. fst p = 1 \<and> snd p = 1) (zip yt yp));
          fp = length (filter (\<lambda>p. fst p \<noteq> 1 \<and> snd p = 1) (zip yt yp));
          fn = length (filter (\<lambda>p. fst p = 1 \<and> snd p \<noteq> 1) (zip yt yp))
      in if 2 * tp + fp + fn = 0 then 0 else real (2 * tp) / real (2 * tp + fp + fn))"

definition demo_kernel :: "circuit \<Rightarrow> features \<Rightarrow> features option \<Rightarrow> error + matrix" where
  "demo_kernel circ A B =
     Inr (map (\<lambda>a. map (\<lambda>b. if 1 < length (data circ) then 1 else 0)
                     (case B of None \<Rightarrow> A | Some B' \<Rightarrow> B')) A)"

definition demo_fit :: "real option \<Rightarrow> matrix \<Rightarrow> labels \<Rightarrow> error + labels" where
  "demo_fit C K y =
     (case C of
        None \<Rightarrow> Inl (LibraryError ''C must be a number'')
      | Some c \<Rightarrow> if 0 < c then Inr y else Inl (LibraryError ''C must be positive''))"

definition demo_vote :: "labels \<Rightarrow> real list \<Rightarrow> int" where
  "demo_vote m row = (if 0 < sum_list (map (\<lambda>p. fst p * real_of_int (snd p)) (zip row m)) then 1 else - 1)"

definition demo_predict :: "labels \<Rightarrow> matrix \<Rightarrow> labels" where
  "demo_predict m K = map (demo_vote m) K"

definition hold_out_last :: "nat \<Rightarrow> split" where
  "hold_out_last n = ([0..<n - 1], [n - 1])"

definition leave_one_out :: "nat \<Rightarrow> split list" where
  "leave_one_out n = map (\<lambda>i. (filter (\<lambda>j. j \<noteq> i) [0..<n], [i])) [0..<n]"

definition demo :: "(labels, labels) library" where
  "demo =
     \<lparr>standard_scaler = (\<lambda>X. X),
      minmax_scaler = (\<lambda>r X. X),
      sss_split = (\<lambda>n test_size seed Xs y. replicate n (hold_out_last (length y))),
      skf_split = (\<lambda>n seed K y. leave_one_out (length y)),
      qk_evaluate = demo_kernel,
      svc_fit = demo_fit,
      svc_predict = demo_predict,
      gs_fit = (\<lambda>clf grid cv X y. Inr (y, 1 / 100)),
      gs_predict = (\<lambda>g X. map (\<lambda>x. if 0 < sum_list g then 1 else - 1) X),
      accuracy_score = demo_accuracy,
      f1_score = demo_f1\<rparr>"

definition X_demo :: features where
  "X_demo = [[0, 0, 0, 0], [1, 1, 1, 1], [2, 2, 2, 2], [3, 3, 3, 3], [4, 4, 4, 4]]"

definition y_demo :: labels where
  "y_demo = [1, - 1, 1, 1, 1]"

definition X_tie :: features where
  "X_tie = [[0, 0, 0, 0], [1, 1, 1, 1], [2, 2, 2, 2]]"

definition y_tie :: labels where
  "y_tie = [1, - 1, 1]"

text \<open>
  A namespace in which \<open>X_raw\<close> and \<open>y_raw\<close> are bound as well (as by statements run
  before the entry-point block), and a world with nothing printed and no file.
\<close>

definition demo_namespace :: namespace where
  "demo_namespace = module_namespace(''X_raw'' \<mapsto> Array2 X_demo, ''y_raw'' \<mapsto> Array1 y_demo)"

definition empty_world :: world where
  "empty_world = \<lparr>console = [], files = Map.empty, saved = []\<rparr>"

section \<open>Properties of the feature-map catalog\<close>

lemma cx_chain_data:
  "data (foldl (\<lambda>c i. cx c i (i + 1)) circ is) = data circ @ map (\<lambda>i. CX i (i + 1)) is"
  by (induction "is" arbitrary: circ) (simp_all add: cx_def)

lemma cx_chain_num_qubits:
  "num_qubits (foldl (\<lambda>c i. cx c i (i + 1)) circ is) = num_qubits circ"
  by (induction "is" arbitrary: circ) (simp_all add: cx_def)

lemma linear_chain_4: "[0..<FEATURE_DIM - 1] = [0, 1, 2]"
  by (simp add: FEATURE_DIM_def upt_rec)

lemma add_linear_entanglement_ZFeatureMap:
  "add_linear_entanglement (ZFeatureMap FEATURE_DIM r) =
     \<lparr>num_qubits = 4, data = [ZEncoding 4 r, CX 0 1, CX 1 2, CX 2 3]\<rparr>"
proof -
  have "[0..<num_qubits (ZFeatureMap FEATURE_DIM r) - 1] = [0, 1, 2]"
    using linear_chain_4 by (simp add: ZFeatureMap_def)
  then show ?thesis
    by (simp add: add_linear_entanglement_def ZFeatureMap_def cx_def FEATURE_DIM_def)
qed

lemma build_maps_entries:
  "build_maps =
     [(''ZF-reps1'', (\<lparr>num_qubits = 4, data = [ZEncoding 4 1]\<rparr>, 1)),
      (''ZF-reps2'', (\<lparr>num_qubits = 4, data = [ZEncoding 4 2]\<rparr>, 1)),
      (''ZF-alpha05'', (\<lparr>num_qubits = 4, data = [ZEncoding 4 1]\<rparr>, 1 / 2)),
      (''ZF-LinEnt'',
         (\<lparr>num_qubits = 4, data = [ZEncoding 4 1, CX 0 1, CX 1 2, CX 2 3]\<rparr>, 1)),
      (''ZF-alpha05-LinEnt'',
         (\<lparr>num_qubits = 4, data = [ZEncoding 4 1, CX 0 1, CX 1 2, CX 2 3]\<rparr>, 1 / 2))]"
  unfolding build_maps_def Let_def add_linear_entanglement_ZFeatureMap
  by (simp add: ZFeatureMap_def FEATURE_DIM_def)

text \<open>
  C8. The catalog is a fixed, ordered list of exactly five named configurations over
  feature dimension 4: (reps 1, scale 1), (reps 2, scale 1), (reps 1, scale 1/2),
  (reps 1 with the linear chain, scale 1), (reps 1 with the linear chain, scale 1/2).
  The linear chain appends, after the instructions the circuit already has, one CX from
  qubit i to qubit i+1 for every i from 0 to n-2, in that order, and nothing else.
\<close>

theorem build_maps_catalog:
  "build_maps =
     [(''ZF-reps1'', (\<lparr>num_qubits = 4, data = [ZEncoding 4 1]\<rparr>, 1)),
      (''ZF-reps2'', (\<lparr>num_qubits = 4, data = [ZEncoding 4 2]\<rparr>, 1)),
      (''ZF-alpha05'', (\<lparr>num_qubits = 4, data = [ZEncoding 4 1]\<rparr>, 1 / 2)),
      (''ZF-LinEnt'',
         (\<lparr>num_qubits = 4, data = [ZEncoding 4 1, CX 0 1, CX 1 2, CX 2 3]\<rparr>, 1)),
      (''ZF-alpha05-LinEnt'',
         (\<lparr>num_qubits = 4, data = [ZEncoding 4 1, CX 0 1, CX 1 2, CX 2 3]\<rparr>, 1 / 2))]
   \<and> length build_maps = 5
   \<and> data (add_linear_entanglement circ) =
       data circ @ map (\<lambda>i. CX i (i + 1)) [0..<num_qubits circ - 1]
   \<and> num_qubits (add_linear_entanglement circ) = num_qubits circ"
proof -
  have len: "length build_maps = 5"
    by (simp add: build_maps_entries)
  have chain: "data (add_linear_entanglement circ) =
       data circ @ map (\<lambda>i. CX i (i + 1)) [0..<num_qubits circ - 1]"
    unfolding add_linear_entanglement_def by (rule cx_chain_data)
  have nq: "num_qubits (add_linear_entanglement circ) = num_qubits circ"
    unfolding add_linear_entanglement_def by (rule cx_chain_num_qubits)
  from build_maps_entries len chain nq show ?thesis by blast
qed

section \<open>Running a sequence of steps\<close>

lemma bind_Inr: "bind (l, Inr x) f = (l @ fst (f x), snd (f x))"
  by (simp add: bind_def split: prod.splits)

lemma bind_lift_Inr: "bind (lift (Inr x)) f = f x"
  by (simp add: lift_def bind_def split: prod.splits)

lemma bind_called_Inr: "bind (called c (Inr x)) f = (c # fst (f x), snd (f x))"
  by (simp add: called_def bind_def split: prod.splits)

lemma bind_called_Inl: "bind (called c (Inl e)) f = ([c], Inl e)"
  by (simp add: called_def bind_def)

lemma bind_succeeds:
  assumes "bind m f = (l, Inr y)"
  obtains l1 x l2 where "m = (l1, Inr x)" and "f x = (l2, Inr y)" and "l = l1 @ l2"
proof -
  obtain l1 r where m: "m = (l1, r)" by (cases m)
  show thesis
  proof (cases r)
    case (Inl e)
    with m assms show thesis by (simp add: bind_def)
  next
    case (Inr x)
    obtain l2 r2 where fx: "f x = (l2, r2)" by (cases "f x")
    with m Inr assms have "l = l1 @ l2" and "r2 = Inr y" by (simp_all add: bind_def)
    with m Inr fx that show thesis by blast
  qed
qed

lemma lift_succeeds: "lift r = (l, Inr x) \<Longrightarrow> r = Inr x \<and> l = []"
  by (simp add: lift_def)

lemma called_succeeds: "called c r = (l, Inr x) \<Longrightarrow> r = Inr x \<and> l = [c]"
  by (auto simp add: called_def)

lemma ret_succeeds: "ret v = (l, Inr x) \<Longrightarrow> x = v \<and> l = []"
  by (auto simp add: ret_def)

text \<open>
  A loop that ends normally has run its body on every element, each time normally; its
  calls are those of the bodies, in order.
\<close>

lemma for_each_succeeds:
  "for_each f xs = (l, Inr ys) \<Longrightarrow>
     \<exists>ls. length ls = length xs \<and> length ys = length xs \<and> l = concat ls \<and>
          (\<forall>i < length xs. f (xs ! i) = (ls ! i, Inr (ys ! i)))"
proof (induction xs arbitrary: l ys)
  case Nil
  then show ?case by (simp add: ret_def)
next
  case (Cons x xs)
  from Cons.prems have b: "bind (f x) (\<lambda>y. bind (for_each f xs) (\<lambda>ys. ret (y # ys))) = (l, Inr ys)"
    by simp
  from b obtain l1 y l2 where fx: "f x = (l1, Inr y)"
    and rest: "bind (for_each f xs) (\<lambda>ys. ret (y # ys)) = (l2, Inr ys)" and l: "l = l1 @ l2"
    by (rule bind_succeeds)
  from rest obtain l3 ys' l4 where fe: "for_each f xs = (l3, Inr ys')"
    and r: "ret (y # ys') = (l4, Inr ys)" and l2: "l2 = l3 @ l4"
    by (rule bind_succeeds)
  from r have ys: "ys = y # ys'" and l4: "l4 = []" by (auto simp add: ret_def)
  from Cons.IH [OF fe] obtain ls where ls: "length ls = length xs" "length ys' = length xs"
    "l3 = concat ls" "\<forall>i < length xs. f (xs ! i) = (ls ! i, Inr (ys' ! i))" by blast
  have "\<forall>i < length (x # xs). f ((x # xs) ! i) = ((l1 # ls) ! i, Inr (ys ! i))"
    using fx ls(4) ys by (auto simp add: nth_Cons split: nat.splits)
  moreover have "l = concat (l1 # ls)" using l l2 l4 ls(3) by simp
  ultimately show ?case using ls(1,2) ys
    by (intro exI [of _ "l1 # ls"]) simp
qed

lemma for_each_replicate:
  "f x = (l, Inr v) \<Longrightarrow> for_each f (replicate n x) = (concat (replicate n l), Inr (replicate n v))"
  by (induction n) (simp_all add: ret_def bind_Inr)

section \<open>The nested selection of C\<close>

text \<open>
  The loop over the candidates, when it ends normally, has folded \<open>keep_best\<close> over the
  candidates paired with their mean accuracies.
\<close>

lemma for_state_keep_best:
  "for_state (\<lambda>st C. bind (g C) (\<lambda>m. ret (keep_best st C m))) s Cs = (l, Inr st') \<Longrightarrow>
     \<exists>ms. length ms = length Cs \<and> (\<forall>i < length Cs. snd (g (Cs ! i)) = Inr (ms ! i)) \<and>
          st' = foldl (\<lambda>st p. keep_best st (fst p) (snd p)) s (zip Cs ms)"
proof (induction Cs arbitrary: s l)
  case Nil
  then show ?case by (simp add: ret_def)
next
  case (Cons C Cs)
  let ?f = "\<lambda>st C. bind (g C) (\<lambda>m. ret (keep_best st C m))"
  from Cons.prems have "bind (?f s C) (\<lambda>s'. for_state ?f s' Cs) = (l, Inr st')"
    by simp
  then obtain l1 s1 l2 where step: "?f s C = (l1, Inr s1)"
    and rest: "for_state ?f s1 Cs = (l2, Inr st')"
    by (rule bind_succeeds)
  from step obtain l3 m l4 where gC: "g C = (l3, Inr m)" and r: "ret (keep_best s C m) = (l4, Inr s1)"
    by (rule bind_succeeds)
  from r have s1: "s1 = keep_best s C m" by (simp add: ret_def)
  from Cons.IH [OF rest] obtain ms where ms: "length ms = length Cs"
    "\<forall>i < length Cs. snd (g (Cs ! i)) = Inr (ms ! i)"
    "st' = foldl (\<lambda>st p. keep_best st (fst p) (snd p)) s1 (zip Cs ms)" by blast
  have "\<forall>i < length (C # Cs). snd (g ((C # Cs) ! i)) = Inr ((m # ms) ! i)"
    using gC ms(2) by (auto simp add: nth_Cons split: nat.splits)
  then show ?case using ms(1,3) s1
    by (intro exI [of _ "m # ms"]) simp
qed

text \<open>What folding \<open>keep_best\<close> leaves: the first pair that reaches the greatest mean, if
  that mean is above the starting \<open>maxAcc\<close>; the starting pair otherwise.\<close>

lemma keep_best_fold:
  "foldl (\<lambda>st p. keep_best st (fst p) (snd p)) (b, a) cms = (b', a') \<Longrightarrow>
     a \<le> a' \<and> (\<forall>p \<in> set cms. snd p \<le> a') \<and>
     ((b' = b \<and> a' = a) \<or>
      (\<exists>i < length cms. b' = Some (fst (cms ! i)) \<and> a' = snd (cms ! i) \<and> a < a' \<and>
          (\<forall>j < i. snd (cms ! j) < a')))"
proof (induction cms arbitrary: b a)
  case Nil
  then show ?case by simp
next
  case (Cons p cms)
  obtain C m where p: "p = (C, m)" by (cases p)
  show ?case
  proof (cases "m > a")
    case True
    with Cons.prems p have
      "foldl (\<lambda>st p. keep_best st (fst p) (snd p)) (Some C, m) cms = (b', a')"
      by (simp add: keep_best_def)
    from Cons.IH [OF this] have ih: "m \<le> a'" "\<forall>p \<in> set cms. snd p \<le> a'"
      "(b' = Some C \<and> a' = m) \<or>
       (\<exists>i < length cms. b' = Some (fst (cms ! i)) \<and> a' = snd (cms ! i) \<and> m < a' \<and>
          (\<forall>j < i. snd (cms ! j) < a'))" by blast+
    from ih(3) have "\<exists>i < length (p # cms). b' = Some (fst ((p # cms) ! i)) \<and>
        a' = snd ((p # cms) ! i) \<and> a < a' \<and> (\<forall>j < i. snd ((p # cms) ! j) < a')"
    proof
      assume "b' = Some C \<and> a' = m"
      with True p show ?thesis by (intro exI [of _ 0]) simp
    next
      assume "\<exists>i < length cms. b' = Some (fst (cms ! i)) \<and> a' = snd (cms ! i) \<and> m < a' \<and>
          (\<forall>j < i. snd (cms ! j) < a')"
      then obtain i where i: "i < length cms" "b' = Some (fst (cms ! i))" "a' = snd (cms ! i)"
        "m < a'" "\<forall>j < i. snd (cms ! j) < a'" by blast
      have "\<forall>j < Suc i. snd ((p # cms) ! j) < a'"
        using i(4,5) p by (auto simp add: nth_Cons split: nat.splits)
      with i True show ?thesis by (intro exI [of _ "Suc i"]) auto
    qed
    with ih(1,2) True p show ?thesis by auto
  next
    case False
    with Cons.prems p have
      "foldl (\<lambda>st p. keep_best st (fst p) (snd p)) (b, a) cms = (b', a')"
      by (simp add: keep_best_def)
    from Cons.IH [OF this] have ih: "a \<le> a'" "\<forall>p \<in> set cms. snd p \<le> a'"
      "(b' = b \<and> a' = a) \<or>
       (\<exists>i < length cms. b' = Some (fst (cms ! i)) \<and> a' = snd (cms ! i) \<and> a < a' \<and>
          (\<forall>j < i. snd (cms ! j) < a'))" by blast+
    from ih(3) have "(b' = b \<and> a' = a) \<or> (\<exists>i < length (p # cms). b' = Some (fst ((p # cms) ! i)) \<and>
        a' = snd ((p # cms) ! i) \<and> a < a' \<and> (\<forall>j < i. snd ((p # cms) ! j) < a'))"
    proof
      assume "b' = b \<and> a' = a"
      then show ?thesis by simp
    next
      assume "\<exists>i < length cms. b' = Some (fst (cms ! i)) \<and> a' = snd (cms ! i) \<and> a < a' \<and>
          (\<forall>j < i. snd (cms ! j) < a')"
      then obtain i where i: "i < length cms" "b' = Some (fst (cms ! i))" "a' = snd (cms ! i)"
        "a < a'" "\<forall>j < i. snd (cms ! j) < a'" by blast
      have "\<forall>j < Suc i. snd ((p # cms) ! j) < a'"
        using i(4,5) p False by (auto simp add: nth_Cons split: nat.splits)
      with i show ?thesis by (intro disjI2 exI [of _ "Suc i"]) auto
    qed
    with ih(1,2) False p show ?thesis by auto
  qed
qed

text \<open>
  When the selection ends with a candidate, that candidate's mean accuracy is the
  greatest of all candidates, it is above 0, and every candidate before it in the loop
  order has a strictly smaller mean (so among equal means the first one is kept). The
  means are the exact ones of \<open>np_mean\<close>.
\<close>

lemma select_C_greatest:
  assumes "select_C lib Ktr ytr = (l, Inr (Some c, a))"
  shows "\<exists>i < length candidates. c = candidates ! i \<and> 0 < a \<and>
           snd (cv_mean lib Ktr ytr c) = Inr a \<and>
           (\<forall>j < length candidates. \<exists>m. snd (cv_mean lib Ktr ytr (candidates ! j)) = Inr m \<and>
                m \<le> a \<and> (j < i \<longrightarrow> m < a))"
proof -
  from assms obtain ms where ms: "length ms = length candidates"
    "\<forall>i < length candidates. snd (cv_mean lib Ktr ytr (candidates ! i)) = Inr (ms ! i)"
    "(Some c, a) = foldl (\<lambda>st p. keep_best st (fst p) (snd p)) (None, 0) (zip candidates ms)"
    unfolding select_C_def by (drule_tac for_state_keep_best) blast
  let ?cms = "zip candidates ms"
  from keep_best_fold [OF ms(3) [symmetric]] have
    le: "\<forall>p \<in> set ?cms. snd p \<le> a" and
    first: "\<exists>i < length ?cms. Some c = Some (fst (?cms ! i)) \<and> a = snd (?cms ! i) \<and> 0 < a \<and>
          (\<forall>j < i. snd (?cms ! j) < a)" by auto
  from first obtain i where i: "i < length candidates" "c = candidates ! i" "a = ms ! i" "0 < a"
    "\<forall>j < i. ms ! j < a" using ms(1) by auto
  have "\<forall>j < length candidates. ms ! j \<le> a"
  proof (intro allI impI)
    fix j assume j: "j < length candidates"
    then have "?cms ! j \<in> set ?cms" using ms(1) by (intro nth_mem) simp
    with le j ms(1) show "ms ! j \<le> a" by fastforce
  qed
  with i ms(2) show ?thesis
    by (intro exI [of _ i]) auto
qed

text \<open>
  When the selection ends with no candidate, no candidate has a mean accuracy above 0.
\<close>

lemma select_C_None:
  assumes "select_C lib Ktr ytr = (l, Inr (None, a))"
  shows "a = 0 \<and> (\<forall>j < length candidates. \<exists>m. snd (cv_mean lib Ktr ytr (candidates ! j)) = Inr m \<and> m \<le> 0)"
proof -
  from assms obtain ms where ms: "length ms = length candidates"
    "\<forall>i < length candidates. snd (cv_mean lib Ktr ytr (candidates ! i)) = Inr (ms ! i)"
    "(None, a) = foldl (\<lambda>st p. keep_best st (fst p) (snd p)) (None, 0) (zip candidates ms)"
    unfolding select_C_def by (drule_tac for_state_keep_best) blast
  let ?cms = "zip candidates ms"
  from keep_best_fold [OF ms(3) [symmetric]] have
    le: "\<forall>p \<in> set ?cms. snd p \<le> a" and a: "a = 0" by auto
  have "\<forall>j < length candidates. ms ! j \<le> 0"
  proof (intro allI impI)
    fix j assume j: "j < length candidates"
    then have "?cms ! j \<in> set ?cms" using ms(1) by (intro nth_mem) simp
    with le j ms(1) a show "ms ! j \<le> 0" by fastforce
  qed
  with a ms(2) show ?thesis by auto
qed

text \<open>Candidates whose means do not exceed \<open>maxAcc\<close> leave the pair as it is.\<close>

lemma for_state_no_update:
  "\<forall>C \<in> set Cs. \<exists>m. snd (g C) = Inr m \<and> m \<le> snd s \<Longrightarrow>
     snd (for_state (\<lambda>st C. bind (g C) (\<lambda>m. ret (keep_best st C m))) s Cs) = Inr s"
proof (induction Cs)
  case Nil
  then show ?case by (simp add: ret_def)
next
  case (Cons C Cs)
  from Cons.prems obtain m where m: "snd (g C) = Inr m" "m \<le> snd s" by auto
  then obtain l where gC: "g C = (l, Inr m)" by (cases "g C") auto
  have step: "bind (g C) (\<lambda>m. ret (keep_best s C m)) = (l, Inr s)"
    using gC m(2) by (cases s) (simp add: bind_Inr ret_def keep_best_def)
  from Cons show ?case by (simp add: step bind_Inr)
qed

section \<open>No candidate selected\<close>

lemma called_in_log: "c \<in> set (fst (bind (called c r) f))"
  by (cases r) (simp_all add: bind_called_Inl bind_called_Inr)

text \<open>
  C2. The pair \<open>(bestC, maxAcc)\<close> starts as \<open>(None, 0)\<close> and a candidate whose mean does
  not exceed \<open>maxAcc\<close> leaves it unchanged. So on a split where the cross-validation of
  every candidate gives mean accuracy 0, the selection ends with \<open>bestC = None\<close>, and the
  final classifier is fitted with \<open>C = None\<close> on the whole training kernel matrix.
\<close>

theorem no_candidate_selected:
  assumes takes: "np_take Xs tr = Inr Xtr_raw" "np_take Xs ts = Inr Xts_raw"
      "np_take y tr = Inr ytr" "np_take y ts = Inr yts"
    and Ktr: "qk_evaluate lib fmap (np_scale Xtr_raw sc) None = Inr Ktr"
    and Kts: "qk_evaluate lib fmap (np_scale Xts_raw sc) (Some (np_scale Xtr_raw sc)) = Inr Kts"
    and zero: "\<forall>C \<in> set candidates. snd (cv_mean lib Ktr ytr C) = Inr 0"
  shows "(m \<le> a \<longrightarrow> keep_best (b, a) C m = (b, a))
       \<and> snd (select_C lib Ktr ytr) = Inr (None, 0)
       \<and> SVCFit None Ktr ytr \<in> set (fst (eval_split lib (fmap, sc) Xs y (tr, ts)))"
proof -
  have keep: "m \<le> a \<longrightarrow> keep_best (b, a) C m = (b, a)"
    by (simp add: keep_best_def)
  from zero have "\<forall>C \<in> set candidates. \<exists>m. snd (cv_mean lib Ktr ytr C) = Inr m \<and> m \<le> snd (None :: real option, 0 :: real)"
    by simp
  then have sel: "snd (select_C lib Ktr ytr) = Inr (None, 0)"
    unfolding select_C_def by (rule for_state_no_update)
  then obtain l where sel': "select_C lib Ktr ytr = (l, Inr (None, 0))"
    by (cases "select_C lib Ktr ytr") auto
  have "SVCFit None Ktr ytr \<in> set (fst (eval_split lib (fmap, sc) Xs y (tr, ts)))"
    unfolding eval_split_def
    by (simp add: takes Ktr Kts sel' bind_lift_Inr bind_called_Inr bind_Inr Let_def called_in_log)
  with keep sel show ?thesis by blast
qed

theorem no_candidate_selected_witness:
  "snd (select_C demo [[1, 1], [1, 1]] [1, - 1]) = Inr (None, 0)
   \<and> SVCFit None [[1, 1], [1, 1]] [1, - 1]
       \<in> set (fst (eval_split demo (add_linear_entanglement (ZFeatureMap FEATURE_DIM 1), 1)
                     X_tie y_tie ([0, 1], [2])))"
proof -
  let ?fmap = "add_linear_entanglement (ZFeatureMap FEATURE_DIM 1)"
  have takes: "np_take X_tie [0, 1] = Inr [[0, 0, 0, 0], [1, 1, 1, 1]]"
      "np_take X_tie [2] = Inr [[2, 2, 2, 2]]"
      "np_take y_tie [0, 1] = Inr [1, - 1]" "np_take y_tie [2] = Inr [1]"
    by (simp_all add: np_take_def X_tie_def y_tie_def)
  have Ktr: "qk_evaluate demo ?fmap (np_scale [[0, 0, 0, 0], [1, 1, 1, 1]] 1) None
      = Inr [[1, 1], [1, 1]]"
    by (simp add: demo_def demo_kernel_def np_scale_def add_linear_entanglement_ZFeatureMap)
  have Kts: "qk_evaluate demo ?fmap (np_scale [[2, 2, 2, 2]] 1)
      (Some (np_scale [[0, 0, 0, 0], [1, 1, 1, 1]] 1)) = Inr [[1, 1]]"
    by (simp add: demo_def demo_kernel_def np_scale_def add_linear_entanglement_ZFeatureMap)
  have zero: "\<forall>C \<in> set candidates. snd (cv_mean demo [[1, 1], [1, 1]] [1, - 1] C) = Inr 0"
  proof -
    have "snd (cv_mean demo [[1, 1], [1, 1]] [1, - 1] (1 / 10)) = Inr 0" by code_simp
    moreover have "snd (cv_mean demo [[1, 1], [1, 1]] [1, - 1] 1) = Inr 0" by code_simp
    moreover have "snd (cv_mean demo [[1, 1], [1, 1]] [1, - 1] 10) = Inr 0" by code_simp
    ultimately show ?thesis by (simp add: candidates_def)
  qed
  from no_candidate_selected [OF takes Ktr Kts zero] show ?thesis by blast
qed

text \<open>
  C1, at the input where the claim and the code part: three candidates with equal mean
  accuracy 0. The claim keeps the first one seen, \<open>C = 0.1\<close>, whose mean is at least
  that of the other two; the loop keeps none. (With some mean above 0 the loop does keep
  the first candidate of greatest mean: \<open>select_C_greatest\<close>.)
\<close>

theorem select_C_all_tied_at_zero:
  "map (\<lambda>C. snd (cv_mean demo [[1, 1], [1, 1]] [1, - 1] C)) candidates = [Inr 0, Inr 0, Inr 0]
   \<and> snd (select_C demo [[1, 1], [1, 1]] [1, - 1]) = Inr (None, 0)"
proof -
  have "map (\<lambda>C. snd (cv_mean demo [[1, 1], [1, 1]] [1, - 1] C)) candidates = [Inr 0, Inr 0, Inr 0]"
    by code_simp
  moreover have "snd (select_C demo [[1, 1], [1, 1]] [1, - 1]) = Inr (None, 0)"
    by code_simp
  ultimately show ?thesis by blast
qed

section \<open>The kernel matrix is computed once and sliced\<close>

lemma np_take_succeeds: "np_take a idx = Inr r \<Longrightarrow> r = the_rows a idx"
  by (auto simp add: np_take_def the_rows_def split: if_splits)

lemma np_take_cols_succeeds:
  "np_take_cols n K idx = Inr K' \<Longrightarrow> K' = map (\<lambda>r. the_rows r idx) K"
proof (induction K arbitrary: K')
  case Nil
  then show ?case by (simp split: if_splits)
next
  case (Cons r rs)
  then show ?case
    by (auto split: sum.splits dest: np_take_succeeds)
qed

lemma sub_block_succeeds: "sub_block K rows cols = Inr B \<Longrightarrow> B = the_block K rows cols"
  by (auto simp add: sub_block_def the_block_def split: sum.splits
      dest: np_take_succeeds np_take_cols_succeeds)

lemma cv_fold_calls:
  assumes "cv_fold lib Ktr ytr C fd = (l, Inr a)"
  shows "l = sliced_fold_calls Ktr ytr C fd"
proof -
  obtain tri vali where fd: "fd = (tri, vali)" by (cases fd)
  from assms show ?thesis
    unfolding cv_fold_def fd prod.case sliced_fold_calls_def
    by (elim bind_succeeds)
      (auto dest!: lift_succeeds called_succeeds ret_succeeds sub_block_succeeds np_take_succeeds)
qed

lemma cv_mean_calls:
  assumes "cv_mean lib Ktr ytr C = (l, Inr m)"
  shows "l = concat (map (sliced_fold_calls Ktr ytr C) (skf_split lib 10 SEED Ktr ytr))"
proof -
  let ?folds = "skf_split lib 10 SEED Ktr ytr"
  from assms obtain l1 accs where fe: "for_each (cv_fold lib Ktr ytr C) ?folds = (l1, Inr accs)"
    and l: "l = l1"
    unfolding cv_mean_def by (elim bind_succeeds) (auto dest!: ret_succeeds)
  from for_each_succeeds [OF fe] obtain ls where ls: "length ls = length ?folds"
    "l1 = concat ls" "\<forall>i < length ?folds. cv_fold lib Ktr ytr C (?folds ! i) = (ls ! i, Inr (accs ! i))"
    by blast
  have "ls = map (sliced_fold_calls Ktr ytr C) ?folds"
  proof (rule nth_equalityI)
    show "length ls = length (map (sliced_fold_calls Ktr ytr C) ?folds)"
      using ls(1) by simp
  next
    fix i assume "i < length ls"
    with ls(1,3) have i: "i < length ?folds"
      and "cv_fold lib Ktr ytr C (?folds ! i) = (ls ! i, Inr (accs ! i))" by simp_all
    from cv_fold_calls [OF this(2)] i
    show "ls ! i = map (sliced_fold_calls Ktr ytr C) ?folds ! i" by simp
  qed
  with l ls(2) show ?thesis by simp
qed

lemma for_state_calls:
  "for_state (\<lambda>st C. bind (g C) (\<lambda>m. ret (k st C m))) s Cs = (l, Inr st') \<Longrightarrow>
   (\<And>C lC m. g C = (lC, Inr m) \<Longrightarrow> lC = h C) \<Longrightarrow> l = concat (map h Cs)"
proof (induction Cs arbitrary: s l)
  case Nil
  then show ?case by (simp add: ret_def)
next
  case (Cons C Cs)
  let ?f = "\<lambda>st C. bind (g C) (\<lambda>m. ret (k st C m))"
  from Cons.prems(1) have "bind (?f s C) (\<lambda>s'. for_state ?f s' Cs) = (l, Inr st')"
    by simp
  then obtain l1 s1 l2 where step: "?f s C = (l1, Inr s1)"
    and rest: "for_state ?f s1 Cs = (l2, Inr st')" and l: "l = l1 @ l2"
    by (rule bind_succeeds)
  from step obtain m where gC: "g C = (l1, Inr m)"
    by (elim bind_succeeds) (auto dest!: ret_succeeds)
  have "l2 = concat (map h Cs)"
    by (rule Cons.IH [OF rest]) (rule Cons.prems(2))
  with l Cons.prems(2) [OF gC] show ?case by simp
qed

lemma select_C_calls:
  assumes "select_C lib Ktr ytr = (l, Inr best)"
  shows "l = sliced_cv_calls (skf_split lib 10 SEED Ktr ytr) Ktr ytr"
  using assms unfolding select_C_def sliced_cv_calls_def
  by (rule for_state_calls) (rule cv_mean_calls)

lemma sliced_cv_calls_no_kernel: "filter is_kernel_call (sliced_cv_calls folds Ktr ytr) = []"
  by (simp add: sliced_cv_calls_def sliced_fold_calls_def filter_concat comp_def)

text \<open>Also a selection that ends with an exception has evaluated no kernel.\<close>

lemma bind_calls:
  "fst (bind m f) = fst m @ (case snd m of Inl e \<Rightarrow> [] | Inr x \<Rightarrow> fst (f x))"
  by (cases m) (auto simp add: bind_def split: sum.splits prod.splits)

lemma for_each_no_kernel:
  "(\<And>x. filter is_kernel_call (fst (f x)) = []) \<Longrightarrow>
     filter is_kernel_call (fst (for_each f xs)) = []"
proof (induction xs)
  case Nil
  then show ?case by (simp add: ret_def)
next
  case (Cons x xs)
  then show ?case
    by (simp add: bind_calls ret_def split: sum.splits)
qed

lemma for_state_no_kernel:
  "(\<And>s x. filter is_kernel_call (fst (f s x)) = []) \<Longrightarrow>
     filter is_kernel_call (fst (for_state f s xs)) = []"
proof (induction xs arbitrary: s)
  case Nil
  then show ?case by (simp add: ret_def)
next
  case (Cons x xs)
  then show ?case
    by (simp add: bind_calls split: sum.splits)
qed

lemma cv_fold_no_kernel: "filter is_kernel_call (fst (cv_fold lib Ktr ytr C fd)) = []"
  by (cases fd)
    (simp add: cv_fold_def bind_calls lift_def called_def ret_def split: sum.splits)

lemma cv_mean_no_kernel: "filter is_kernel_call (fst (cv_mean lib Ktr ytr C)) = []"
  by (simp add: cv_mean_def bind_calls ret_def for_each_no_kernel cv_fold_no_kernel
      split: sum.splits)

lemma select_C_no_kernel: "filter is_kernel_call (fst (select_C lib Ktr ytr)) = []"
  unfolding select_C_def
  by (rule for_state_no_kernel)
    (simp add: bind_calls ret_def cv_mean_no_kernel split: sum.splits)

text \<open>
  C7. The nested cross-validation evaluates no kernel, whether it ends normally or not.
  In a split that ends normally the calls are, in order: one evaluation of the
  train-train kernel matrix \<open>Ktr\<close>, one of the test-train matrix, then for every candidate
  and every fold a fit on \<open>Ktr[tri][:,tri]\<close> and a prediction on \<open>Ktr[vali][:,tri]\<close>, and
  last the final fit and prediction; so the kernel calls of the split are the first two,
  whatever the number of folds.
\<close>

theorem kernel_computed_once_and_sliced:
  assumes "eval_split lib (fmap, sc) Xs y (tr, ts) = (calls, Inr res)"
  shows "filter is_kernel_call (fst (select_C lib K yl)) = []
       \<and> (\<exists>Ktr Kts bestC.
           qk_evaluate lib fmap (np_scale (the_rows Xs tr) sc) None = Inr Ktr
         \<and> calls = [KernelEvaluate fmap (np_scale (the_rows Xs tr) sc) None,
                  KernelEvaluate fmap (np_scale (the_rows Xs ts) sc)
                    (Some (np_scale (the_rows Xs tr) sc))]
               @ sliced_cv_calls (skf_split lib 10 SEED Ktr (the_rows y tr)) Ktr (the_rows y tr)
               @ [SVCFit bestC Ktr (the_rows y tr), SVCPredict Kts]
         \<and> filter is_kernel_call calls =
               [KernelEvaluate fmap (np_scale (the_rows Xs tr) sc) None,
                KernelEvaluate fmap (np_scale (the_rows Xs ts) sc)
                  (Some (np_scale (the_rows Xs tr) sc))])"
proof -
  let ?Xtr = "np_scale (the_rows Xs tr) sc" and ?Xts = "np_scale (the_rows Xs ts) sc"
  let ?ytr = "the_rows y tr"
  from assms obtain Ktr Kts best lsel svc where
    Ktr: "qk_evaluate lib fmap ?Xtr None = Inr Ktr" and
    sel: "select_C lib Ktr ?ytr = (lsel, Inr best)" and
    calls0: "calls = [KernelEvaluate fmap ?Xtr None] @ [KernelEvaluate fmap ?Xts (Some ?Xtr)] @ lsel
            @ [SVCFit (fst best) Ktr ?ytr] @ [SVCPredict Kts]"
    unfolding eval_split_def prod.case Let_def
    by (elim bind_succeeds)
      (auto dest!: lift_succeeds called_succeeds ret_succeeds np_take_succeeds)
  from select_C_calls [OF sel] have lsel:
    "lsel = sliced_cv_calls (skf_split lib 10 SEED Ktr ?ytr) Ktr ?ytr" .
  have calls_eq: "calls = [KernelEvaluate fmap ?Xtr None, KernelEvaluate fmap ?Xts (Some ?Xtr)]
      @ sliced_cv_calls (skf_split lib 10 SEED Ktr ?ytr) Ktr ?ytr
      @ [SVCFit (fst best) Ktr ?ytr, SVCPredict Kts]"
    using calls0 lsel by simp
  have "filter is_kernel_call calls =
      [KernelEvaluate fmap ?Xtr None, KernelEvaluate fmap ?Xts (Some ?Xtr)]"
    unfolding calls_eq by (simp add: sliced_cv_calls_no_kernel)
  with Ktr calls_eq select_C_no_kernel show ?thesis by blast
qed

theorem kernel_computed_once_and_sliced_witness:
  "snd (eval_split demo (ZFeatureMap FEATURE_DIM 1, 1) X_demo y_demo ([0, 1, 2, 3], [4])) = Inr (0, 0)
   \<and> filter is_kernel_call
        (fst (eval_split demo (ZFeatureMap FEATURE_DIM 1, 1) X_demo y_demo ([0, 1, 2, 3], [4]))) =
      [KernelEvaluate (ZFeatureMap FEATURE_DIM 1) (np_scale (the_rows X_demo [0, 1, 2, 3]) 1) None,
       KernelEvaluate (ZFeatureMap FEATURE_DIM 1) (np_scale (the_rows X_demo [4]) 1)
         (Some (np_scale (the_rows X_demo [0, 1, 2, 3]) 1))]"
proof -
  let ?run = "eval_split demo (ZFeatureMap FEATURE_DIM 1, 1) X_demo y_demo ([0, 1, 2, 3], [4])"
  have ok: "snd ?run = Inr (0, 0)" by code_simp
  then have "?run = (fst ?run, Inr (0, 0))" by (simp add: prod_eq_iff)
  from kernel_computed_once_and_sliced [OF this] ok show ?thesis by blast
qed

section \<open>Summary rows of the quantum evaluator\<close>

lemma sum_list_unit_interval:
  "\<forall>x \<in> set xs. 0 \<le> x \<and> x \<le> 1 \<Longrightarrow> 0 \<le> sum_list xs \<and> sum_list xs \<le> real (length xs)"
  for xs :: "real list"
  by (induction xs) auto

lemma np_mean_unit_interval:
  assumes "\<forall>x \<in> set xs. 0 \<le> x \<and> x \<le> 1"
  shows "0 \<le> np_mean xs \<and> np_mean xs \<le> 1"
proof (cases "xs = []")
  case True
  then show ?thesis by (simp add: np_mean_def)
next
  case False
  then have pos: "0 < real (length xs)" by simp
  from sum_list_unit_interval [OF assms] pos show ?thesis
    by (simp add: np_mean_def divide_le_eq)
qed

lemma np_mean_nonneg: "\<forall>x \<in> set xs. 0 \<le> x \<Longrightarrow> 0 \<le> np_mean xs"
  by (simp add: np_mean_def sum_list_nonneg)

lemma np_std_nonneg: "0 \<le> np_std xs"
  unfolding np_std_def by (rule real_sqrt_ge_zero) (simp add: np_mean_nonneg)

text \<open>What a split returns are the two metrics of one pair of label vectors.\<close>

lemma eval_split_metrics:
  assumes "eval_split lib fm Xs y sp = (l, Inr res)"
  shows "\<exists>yt yp. res = (accuracy_score lib yt yp, f1_score lib yt yp)"
proof -
  obtain fmap sc where fm: "fm = (fmap, sc)" by (cases fm)
  obtain tr ts where sp: "sp = (tr, ts)" by (cases sp)
  from assms show ?thesis
    unfolding eval_split_def fm sp prod.case Let_def
    by (elim bind_succeeds) (auto dest!: ret_succeeds)
qed

text \<open>
  The row of a feature map is the aggregate of what \<open>eval_split\<close> returned on the
  splits, one result per split, in the order of the splits.
\<close>

lemma eval_map_row:
  assumes run: "eval_map lib Xs y (name, fm) = (l, Inr r)"
    and acc: "\<forall>yt yp. 0 \<le> accuracy_score lib yt yp \<and> accuracy_score lib yt yp \<le> 1"
    and f1: "\<forall>yt yp. 0 \<le> f1_score lib yt yp \<and> f1_score lib yt yp \<le> 1"
  shows "\<exists>res. for_each (eval_split lib fm Xs y) (sss_split lib 10 (3 / 10) SEED Xs y) = (l, Inr res) \<and>
         length res = length (sss_split lib 10 (3 / 10) SEED Xs y) \<and>
         (\<forall>k < length (sss_split lib 10 (3 / 10) SEED Xs y).
            snd (eval_split lib fm Xs y (sss_split lib 10 (3 / 10) SEED Xs y ! k)) = Inr (res ! k)) \<and>
         r = \<lparr>qmap = name, acc_mean = np_mean (map fst res), acc_std = np_std (map fst res),
               f1_mean = np_mean (map snd res)\<rparr> \<and>
         0 \<le> acc_mean r \<and> acc_mean r \<le> 1 \<and> 0 \<le> acc_std r \<and>
         0 \<le> f1_mean r \<and> f1_mean r \<le> 1"
proof -
  let ?splits = "sss_split lib 10 (3 / 10) SEED Xs y"
  from run obtain res where fe: "for_each (eval_split lib fm Xs y) ?splits = (l, Inr res)"
    and r: "r = \<lparr>qmap = name, acc_mean = np_mean (map fst res), acc_std = np_std (map fst res),
                 f1_mean = np_mean (map snd res)\<rparr>"
    unfolding eval_map_def prod.case Let_def
    by (elim bind_succeeds) (auto dest!: ret_succeeds)
  from for_each_succeeds [OF fe] obtain ls where len: "length res = length ?splits"
    and each: "\<forall>i < length ?splits. eval_split lib fm Xs y (?splits ! i) = (ls ! i, Inr (res ! i))"
    by blast
  from each have results: "\<forall>k < length ?splits. snd (eval_split lib fm Xs y (?splits ! k)) = Inr (res ! k)"
    by simp
  have metric: "\<exists>yt yp. p = (accuracy_score lib yt yp, f1_score lib yt yp)" if "p \<in> set res" for p
  proof -
    from that obtain i where "i < length res" "p = res ! i" by (auto simp add: in_set_conv_nth)
    with len each have "eval_split lib fm Xs y (?splits ! i) = (ls ! i, Inr p)" by simp
    then show ?thesis by (rule eval_split_metrics)
  qed
  have accs: "\<forall>a \<in> set (map fst res). 0 \<le> a \<and> a \<le> 1"
    using metric acc by fastforce
  have f1s: "\<forall>a \<in> set (map snd res). 0 \<le> a \<and> a \<le> 1"
    using metric f1 by fastforce
  have ranges: "0 \<le> acc_mean r \<and> acc_mean r \<le> 1 \<and> 0 \<le> acc_std r \<and>
         0 \<le> f1_mean r \<and> f1_mean r \<le> 1"
    using np_mean_unit_interval [OF accs] np_mean_unit_interval [OF f1s]
      np_std_nonneg [of "map fst res"] by (simp add: r)
  from fe len results r ranges show ?thesis by blast
qed

text \<open>
  C6. When the quantum evaluator ends normally (no kernel evaluation and no fit raised),
  the shuffle split yields the 10 splits it was asked for, and the two metrics take
  values in [0,1], the result has exactly 5 rows, one per catalog entry in catalog
  order. The row of an entry carries the entry's name and aggregates the 10 results that
  \<open>eval_split\<close> returns for this entry on the 10 splits, one per split: the mean and the
  standard deviation of the 10 accuracies and the mean of the 10 F1 values. Both means
  lie in [0,1] and the deviation is at least 0.
\<close>

theorem eval_qsvm_summary_rows:
  assumes run: "eval_qsvm lib X y = (calls, Inr rows)"
    and ten: "length (sss_split lib 10 (3 / 10) SEED (minmax_scaler lib (0, pi) X) y) = 10"
    and acc: "\<forall>yt yp. 0 \<le> accuracy_score lib yt yp \<and> accuracy_score lib yt yp \<le> 1"
    and f1: "\<forall>yt yp. 0 \<le> f1_score lib yt yp \<and> f1_score lib yt yp \<le> 1"
  shows "length rows = 5 \<and> map qmap rows = map fst build_maps \<and>
     (\<forall>i < 5. \<exists>l res.
         for_each (eval_split lib (snd (build_maps ! i)) (minmax_scaler lib (0, pi) X) y)
           (sss_split lib 10 (3 / 10) SEED (minmax_scaler lib (0, pi) X) y) = (l, Inr res) \<and>
         length res = 10 \<and>
         (\<forall>k < 10. snd (eval_split lib (snd (build_maps ! i)) (minmax_scaler lib (0, pi) X) y
                          (sss_split lib 10 (3 / 10) SEED (minmax_scaler lib (0, pi) X) y ! k))
                     = Inr (res ! k)) \<and>
         rows ! i = \<lparr>qmap = fst (build_maps ! i), acc_mean = np_mean (map fst res),
                      acc_std = np_std (map fst res), f1_mean = np_mean (map snd res)\<rparr> \<and>
         0 \<le> acc_mean (rows ! i) \<and> acc_mean (rows ! i) \<le> 1 \<and> 0 \<le> acc_std (rows ! i) \<and>
         0 \<le> f1_mean (rows ! i) \<and> f1_mean (rows ! i) \<le> 1)"
proof -
  let ?Xs = "minmax_scaler lib (0, pi) X"
  let ?splits = "sss_split lib 10 (3 / 10) SEED ?Xs y"
  from run have fe: "for_each (eval_map lib ?Xs y) build_maps = (calls, Inr rows)"
    by (simp add: eval_qsvm_def Let_def)
  from for_each_succeeds [OF fe] obtain ls where len: "length rows = length build_maps"
    and each: "\<forall>i < length build_maps. eval_map lib ?Xs y (build_maps ! i) = (ls ! i, Inr (rows ! i))"
    by blast
  have five_maps: "length build_maps = 5"
    by (simp add: build_maps_entries)
  have row: "\<exists>l res.
         for_each (eval_split lib (snd (build_maps ! i)) ?Xs y) ?splits = (l, Inr res) \<and>
         length res = 10 \<and>
         (\<forall>k < 10. snd (eval_split lib (snd (build_maps ! i)) ?Xs y (?splits ! k)) = Inr (res ! k)) \<and>
         rows ! i = \<lparr>qmap = fst (build_maps ! i), acc_mean = np_mean (map fst res),
                      acc_std = np_std (map fst res), f1_mean = np_mean (map snd res)\<rparr> \<and>
         0 \<le> acc_mean (rows ! i) \<and> acc_mean (rows ! i) \<le> 1 \<and> 0 \<le> acc_std (rows ! i) \<and>
         0 \<le> f1_mean (rows ! i) \<and> f1_mean (rows ! i) \<le> 1" if "i < 5" for i
  proof -
    obtain name fm where e: "build_maps ! i = (name, fm)" by (cases "build_maps ! i")
    from each that five_maps
    have "eval_map lib ?Xs y (build_maps ! i) = (ls ! i, Inr (rows ! i))"
      by simp
    then have "eval_map lib ?Xs y (name, fm) = (ls ! i, Inr (rows ! i))"
      by (simp only: e)
    from eval_map_row [OF this acc f1] show ?thesis
      unfolding ten e fst_conv snd_conv by blast
  qed
  have five: "length rows = 5"
    using len five_maps by simp
  have "qmap (rows ! i) = fst (build_maps ! i)" if "i < 5" for i
    using row [OF that] by auto
  then have names: "map qmap rows = map fst build_maps"
    using five five_maps by (intro nth_equalityI) simp_all
  from five names row show ?thesis by blast
qed

section \<open>Runs of the small library instance\<close>

lemma demo_accuracy_range: "0 \<le> demo_accuracy yt yp \<and> demo_accuracy yt yp \<le> 1"
proof (cases "yt = []")
  case True
  then show ?thesis by (simp add: demo_accuracy_def)
next
  case False
  have "length (filter (\<lambda>p. fst p = snd p) (zip yt yp)) \<le> length (zip yt yp)"
    by (rule length_filter_le)
  also have "\<dots> \<le> length yt" by simp
  finally have "real (length (filter (\<lambda>p. fst p = snd p) (zip yt yp))) \<le> real (length yt)"
    by simp
  with False show ?thesis by (simp add: demo_accuracy_def divide_le_eq)
qed

lemma demo_f1_range: "0 \<le> demo_f1 yt yp \<and> demo_f1 yt yp \<le> 1"
  by (simp add: demo_f1_def Let_def divide_le_eq)

lemma demo_metrics:
  "\<forall>yt yp. 0 \<le> accuracy_score demo yt yp \<and> accuracy_score demo yt yp \<le> 1"
  "\<forall>yt yp. 0 \<le> f1_score demo yt yp \<and> f1_score demo yt yp \<le> 1"
  by (simp_all add: demo_def demo_accuracy_range demo_f1_range)

lemma demo_sss_split: "sss_split demo n t s Xs y = replicate n (hold_out_last (length y))"
  by (simp add: demo_def)

lemma for_each_ends_normally:
  "\<forall>x \<in> set xs. \<exists>v. snd (f x) = Inr v \<Longrightarrow> \<exists>l vs. for_each f xs = (l, Inr vs)"
proof (induction xs)
  case Nil
  then show ?case by (simp add: ret_def)
next
  case (Cons x xs)
  then obtain v l vs where v: "snd (f x) = Inr v" and rest: "for_each f xs = (l, Inr vs)"
    by auto
  from v obtain lx where "f x = (lx, Inr v)" by (cases "f x") auto
  with rest show ?case by (simp add: bind_Inr ret_def)
qed

lemma demo_eval_map:
  assumes "snd (eval_split demo fm X_demo y_demo (hold_out_last 5)) = Inr v"
  shows "snd (eval_map demo X_demo y_demo (name, fm)) =
     Inr \<lparr>qmap = name, acc_mean = np_mean (replicate 10 (fst v)),
          acc_std = np_std (replicate 10 (fst v)), f1_mean = np_mean (replicate 10 (snd v))\<rparr>"
proof -
  from assms obtain l where "eval_split demo fm X_demo y_demo (hold_out_last 5) = (l, Inr v)"
    by (cases "eval_split demo fm X_demo y_demo (hold_out_last 5)") auto
  then have "for_each (eval_split demo fm X_demo y_demo) (replicate 10 (hold_out_last 5)) =
      (concat (replicate 10 l), Inr (replicate 10 v))"
    by (rule for_each_replicate)
  moreover have "sss_split demo 10 (3 / 10) SEED X_demo y_demo = replicate 10 (hold_out_last 5)"
    by (simp add: demo_sss_split y_demo_def eval_nat_numeral)
  ultimately show ?thesis
    unfolding eval_map_def prod.case by (simp add: bind_Inr ret_def Let_def)
qed

lemma demo_splits_plain:
  "snd (eval_split demo (\<lparr>num_qubits = 4, data = [ZEncoding 4 1]\<rparr>, 1) X_demo y_demo (hold_out_last 5)) = Inr (0, 0)"
  "snd (eval_split demo (\<lparr>num_qubits = 4, data = [ZEncoding 4 2]\<rparr>, 1) X_demo y_demo (hold_out_last 5)) = Inr (0, 0)"
  "snd (eval_split demo (\<lparr>num_qubits = 4, data = [ZEncoding 4 1]\<rparr>, 1 / 2) X_demo y_demo (hold_out_last 5)) = Inr (0, 0)"
  by code_simp+

lemma demo_splits_chain:
  "snd (eval_split demo (\<lparr>num_qubits = 4, data = [ZEncoding 4 1, CX 0 1, CX 1 2, CX 2 3]\<rparr>, 1) X_demo y_demo (hold_out_last 5)) = Inr (1, 1)"
  "snd (eval_split demo (\<lparr>num_qubits = 4, data = [ZEncoding 4 1, CX 0 1, CX 1 2, CX 2 3]\<rparr>, 1 / 2) X_demo y_demo (hold_out_last 5)) = Inr (1, 1)"
  by code_simp+

lemma np_mean_replicate_10: "np_mean (replicate 10 v) = v"
  by (simp add: np_mean_def sum_list_replicate)

lemma np_std_replicate_10: "np_std (replicate 10 v) = 0"
  by (simp add: np_std_def np_mean_replicate_10)

lemma demo_eval_qsvm:
  "\<exists>calls. eval_qsvm demo X_demo y_demo =
     (calls, Inr [\<lparr>qmap = ''ZF-reps1'', acc_mean = 0, acc_std = 0, f1_mean = 0\<rparr>,
                 \<lparr>qmap = ''ZF-reps2'', acc_mean = 0, acc_std = 0, f1_mean = 0\<rparr>,
                 \<lparr>qmap = ''ZF-alpha05'', acc_mean = 0, acc_std = 0, f1_mean = 0\<rparr>,
                 \<lparr>qmap = ''ZF-LinEnt'', acc_mean = 1, acc_std = 0, f1_mean = 1\<rparr>,
                 \<lparr>qmap = ''ZF-alpha05-LinEnt'', acc_mean = 1, acc_std = 0, f1_mean = 1\<rparr>])"
proof -
  let ?f = "eval_map demo X_demo y_demo"
  let ?e1 = "(''ZF-reps1'', (\<lparr>num_qubits = 4, data = [ZEncoding 4 1]\<rparr>, 1 :: real))"
  let ?e2 = "(''ZF-reps2'', (\<lparr>num_qubits = 4, data = [ZEncoding 4 2]\<rparr>, 1 :: real))"
  let ?e3 = "(''ZF-alpha05'', (\<lparr>num_qubits = 4, data = [ZEncoding 4 1]\<rparr>, 1 / 2 :: real))"
  let ?e4 = "(''ZF-LinEnt'',
         (\<lparr>num_qubits = 4, data = [ZEncoding 4 1, CX 0 1, CX 1 2, CX 2 3]\<rparr>, 1 :: real))"
  let ?e5 = "(''ZF-alpha05-LinEnt'',
         (\<lparr>num_qubits = 4, data = [ZEncoding 4 1, CX 0 1, CX 1 2, CX 2 3]\<rparr>, 1 / 2 :: real))"
  let ?r0 = "\<lambda>name. \<lparr>qmap = name, acc_mean = np_mean (replicate 10 (fst (0 :: real, 0 :: real))),
      acc_std = np_std (replicate 10 (fst (0 :: real, 0 :: real))),
      f1_mean = np_mean (replicate 10 (snd (0 :: real, 0 :: real)))\<rparr>"
  let ?r1 = "\<lambda>name. \<lparr>qmap = name, acc_mean = np_mean (replicate 10 (fst (1 :: real, 1 :: real))),
      acc_std = np_std (replicate 10 (fst (1 :: real, 1 :: real))),
      f1_mean = np_mean (replicate 10 (snd (1 :: real, 1 :: real)))\<rparr>"
  obtain l1 where r1: "?f ?e1 = (l1, Inr (?r0 ''ZF-reps1''))"
    using demo_eval_map [OF demo_splits_plain(1), of "''ZF-reps1''"] by (cases "?f ?e1") auto
  obtain l2 where r2: "?f ?e2 = (l2, Inr (?r0 ''ZF-reps2''))"
    using demo_eval_map [OF demo_splits_plain(2), of "''ZF-reps2''"] by (cases "?f ?e2") auto
  obtain l3 where r3: "?f ?e3 = (l3, Inr (?r0 ''ZF-alpha05''))"
    using demo_eval_map [OF demo_splits_plain(3), of "''ZF-alpha05''"] by (cases "?f ?e3") auto
  obtain l4 where r4: "?f ?e4 = (l4, Inr (?r1 ''ZF-LinEnt''))"
    using demo_eval_map [OF demo_splits_chain(1), of "''ZF-LinEnt''"] by (cases "?f ?e4") auto
  obtain l5 where r5: "?f ?e5 = (l5, Inr (?r1 ''ZF-alpha05-LinEnt''))"
    using demo_eval_map [OF demo_splits_chain(2), of "''ZF-alpha05-LinEnt''"] by (cases "?f ?e5") auto
  have "eval_qsvm demo X_demo y_demo = for_each ?f [?e1, ?e2, ?e3, ?e4, ?e5]"
    unfolding eval_qsvm_def build_maps_entries by (simp add: demo_def)
  also have "\<dots> = (l1 @ l2 @ l3 @ l4 @ l5, Inr [?r0 ''ZF-reps1'', ?r0 ''ZF-reps2'', ?r0 ''ZF-alpha05'',
      ?r1 ''ZF-LinEnt'', ?r1 ''ZF-alpha05-LinEnt''])"
    unfolding for_each.simps r1 r2 r3 r4 r5 bind_Inr ret_def fst_conv snd_conv by simp
  finally show ?thesis
    by (simp add: np_mean_replicate_10 np_std_replicate_10)
qed

theorem eval_qsvm_summary_rows_witness:
  "\<exists>calls rows l res. eval_qsvm demo X_demo y_demo = (calls, Inr rows) \<and> length rows = 5 \<and>
      map qmap rows = map fst build_maps \<and>
      for_each (eval_split demo (snd (build_maps ! 3)) X_demo y_demo)
        (sss_split demo 10 (3 / 10) SEED X_demo y_demo) = (l, Inr res) \<and>
      length res = 10 \<and>
      rows ! 3 = \<lparr>qmap = fst (build_maps ! 3), acc_mean = np_mean (map fst res),
                   acc_std = np_std (map fst res), f1_mean = np_mean (map snd res)\<rparr> \<and>
      0 \<le> acc_mean (rows ! 3) \<and> acc_mean (rows ! 3) \<le> 1 \<and> 0 \<le> acc_std (rows ! 3) \<and>
      0 \<le> f1_mean (rows ! 3) \<and> f1_mean (rows ! 3) \<le> 1"
proof -
  from demo_eval_qsvm obtain calls rows where
    run: "eval_qsvm demo X_demo y_demo = (calls, Inr rows)" by (elim exE)
  have Xs: "minmax_scaler demo (0, pi) X_demo = X_demo"
    by (simp add: demo_def)
  have ten: "length (sss_split demo 10 (3 / 10) SEED (minmax_scaler demo (0, pi) X_demo) y_demo) = 10"
    by (simp add: demo_sss_split)
  have three: "(3 :: nat) < 5" by simp
  from eval_qsvm_summary_rows [OF run ten demo_metrics] three run show ?thesis
    unfolding Xs by blast
qed

section \<open>Rows of the classical evaluator\<close>

lemma classical_grids_names:
  "map fst classical_grids = [''LogReg'', ''SVM-linear'', ''SVM-poly'', ''SVM-rbf'']"
  by (simp add: classical_grids_def Let_def)

lemma np_logspace_gammas: "np_logspace (- 3) 1 5 = [1 / 1000, 1 / 100, 1 / 10, 1, 10]"
proof -
  have idx: "[0..<5] = [0, 1, 2, 3, 4]" by (simp add: upt_rec)
  have p3: "(10 :: real) powr (- 3) = 1 / 1000"
    by (simp only: powr_minus_divide) (simp add: powr_numeral)
  have p2: "(10 :: real) powr (- 2) = 1 / 100"
    by (simp only: powr_minus_divide) (simp add: powr_numeral)
  have p1: "(10 :: real) powr (- 1) = 1 / 10"
    by (simp only: powr_minus_divide) simp
  have e: "- 3 + real 0 * (1 - - 3) / real (5 - 1) = - 3"
    "- 3 + real 1 * (1 - - 3) / real (5 - 1) = - 2"
    "- 3 + real 2 * (1 - - 3) / real (5 - 1) = - 1"
    "- 3 + real 3 * (1 - - 3) / real (5 - 1) = 0"
    "- 3 + real 4 * (1 - - 3) / real (5 - 1) = 1"
    by simp_all
  show ?thesis
    unfolding np_logspace_def idx list.map e p3 p2 p1 by simp
qed

lemma eval_model_row:
  assumes "eval_model lib sp Xtr Xts ytr yts entry = (l, Inr r)"
  shows "c_split r = sp \<and> c_model r = fst entry \<and>
     (\<exists>yt yp. c_acc r = accuracy_score lib yt yp \<and> c_f1 r = f1_score lib yt yp)"
proof -
  obtain m clf grid where e: "entry = (m, clf, grid)" by (cases entry)
  from assms show ?thesis
    unfolding eval_model_def e prod.case
    by (elim bind_succeeds)
      (fastforce dest!: ret_succeeds called_succeeds split: prod.splits elim!: bind_succeeds)
qed

lemma eval_classical_split_rows:
  assumes run: "eval_classical_split lib Xs y (sp, tr, ts) = (l, Inr rs)"
  shows "map (\<lambda>r. (c_split r, c_model r)) rs = map (\<lambda>m. (sp, m)) (map fst classical_grids) \<and>
     (\<forall>r \<in> set rs. \<exists>yt yp. c_acc r = accuracy_score lib yt yp \<and> c_f1 r = f1_score lib yt yp)"
proof -
  from run obtain Xtr Xts ytr yts where
    fe: "for_each (eval_model lib sp Xtr Xts ytr yts) classical_grids = (l, Inr rs)"
    unfolding eval_classical_split_def prod.case
    by (elim bind_succeeds) (auto dest!: lift_succeeds)
  from for_each_succeeds [OF fe] obtain ls where len: "length rs = length classical_grids"
    and each: "\<forall>i < length classical_grids.
        eval_model lib sp Xtr Xts ytr yts (classical_grids ! i) = (ls ! i, Inr (rs ! i))"
    by blast
  have row: "c_split (rs ! i) = sp \<and> c_model (rs ! i) = fst (classical_grids ! i) \<and>
     (\<exists>yt yp. c_acc (rs ! i) = accuracy_score lib yt yp \<and> c_f1 (rs ! i) = f1_score lib yt yp)"
    if "i < length classical_grids" for i
    using each that by (blast dest: eval_model_row)
  have "map (\<lambda>r. (c_split r, c_model r)) rs = map (\<lambda>m. (sp, m)) (map fst classical_grids)"
    using len row by (intro nth_equalityI) simp_all
  moreover have "\<forall>r \<in> set rs. \<exists>yt yp. c_acc r = accuracy_score lib yt yp \<and> c_f1 r = f1_score lib yt yp"
  proof
    fix r assume "r \<in> set rs"
    then obtain i where "i < length rs" "r = rs ! i" by (auto simp add: in_set_conv_nth)
    with len row [of i] show "\<exists>yt yp. c_acc r = accuracy_score lib yt yp \<and> c_f1 r = f1_score lib yt yp"
      by simp
  qed
  ultimately show ?thesis by blast
qed

text \<open>
  C5. When the classical evaluator ends normally (no fit raised), the shuffle split
  yields the 3 splits it was asked for, and the two metrics take values in [0,1], the
  result has exactly 12 rows: one per pair of a split number 1, 2, 3 and a model of the
  four, split by split in the order of the grids; the accuracy and the F1 of every row
  lie in [0,1].
\<close>

theorem eval_classical_twelve_rows:
  assumes run: "eval_classical lib X y = (calls, Inr rows)"
    and three: "length (sss_split lib 3 (3 / 10) SEED (standard_scaler lib X) y) = 3"
    and acc: "\<forall>yt yp. 0 \<le> accuracy_score lib yt yp \<and> accuracy_score lib yt yp \<le> 1"
    and f1: "\<forall>yt yp. 0 \<le> f1_score lib yt yp \<and> f1_score lib yt yp \<le> 1"
  shows "length rows = 12 \<and>
     map (\<lambda>r. (c_split r, c_model r)) rows =
       List.product [1, 2, 3] [''LogReg'', ''SVM-linear'', ''SVM-poly'', ''SVM-rbf''] \<and>
     (\<forall>r \<in> set rows. 0 \<le> c_acc r \<and> c_acc r \<le> 1 \<and> 0 \<le> c_f1 r \<and> c_f1 r \<le> 1)"
proof -
  let ?Xs = "standard_scaler lib X"
  let ?splits = "sss_split lib 3 (3 / 10) SEED ?Xs y"
  from three obtain s1 s2 s3 where splits: "?splits = [s1, s2, s3]"
    by (auto simp add: length_Suc_conv eval_nat_numeral)
  have enum: "enumerate_from 1 ?splits = [(1, s1), (2, s2), (3, s3)]"
    by (simp add: splits enumerate_from_def upt_rec)
  from run obtain l1 rss where
    fe: "for_each (eval_classical_split lib ?Xs y) [(1, s1), (2, s2), (3, s3)] = (l1, Inr rss)"
    and rows: "rows = concat rss"
    unfolding eval_classical_def Let_def enum
    by (elim bind_succeeds) (auto dest!: ret_succeeds)
  from fe obtain la lb lc r1 r2 r3 where
    a: "eval_classical_split lib ?Xs y (1, s1) = (la, Inr r1)" and
    b: "eval_classical_split lib ?Xs y (2, s2) = (lb, Inr r2)" and
    c: "eval_classical_split lib ?Xs y (3, s3) = (lc, Inr r3)" and
    rss: "rss = [r1, r2, r3]"
    unfolding for_each.simps
    by (elim bind_succeeds) (auto dest!: ret_succeeds)
  obtain tr1 ts1 tr2 ts2 tr3 ts3 where s: "s1 = (tr1, ts1)" "s2 = (tr2, ts2)" "s3 = (tr3, ts3)"
    by (cases s1, cases s2, cases s3) blast
  note A = eval_classical_split_rows [OF a [unfolded s]]
    and B = eval_classical_split_rows [OF b [unfolded s]]
    and C = eval_classical_split_rows [OF c [unfolded s]]
  have pairs: "map (\<lambda>r. (c_split r, c_model r)) rows =
       List.product [1, 2, 3] [''LogReg'', ''SVM-linear'', ''SVM-poly'', ''SVM-rbf'']"
    using A B C by (simp add: rows rss classical_grids_names)
  then have "length (map (\<lambda>r. (c_split r, c_model r)) rows) = 12"
    by simp
  then have twelve: "length rows = 12" by simp
  have "\<forall>r \<in> set rows. \<exists>yt yp. c_acc r = accuracy_score lib yt yp \<and> c_f1 r = f1_score lib yt yp"
    using A B C by (auto simp add: rows rss)
  with acc f1 have "\<forall>r \<in> set rows. 0 \<le> c_acc r \<and> c_acc r \<le> 1 \<and> 0 \<le> c_f1 r \<and> c_f1 r \<le> 1"
    by fastforce
  with twelve pairs show ?thesis by blast
qed

lemma demo_eval_classical:
  "\<exists>calls rows. eval_classical demo X_demo y_demo = (calls, Inr rows)"
proof -
  have model: "\<exists>r. snd (eval_model demo sp Xtr Xts ytr yts entry) = Inr r"
    for sp Xtr Xts ytr yts entry
    by (cases entry) (simp add: eval_model_def demo_def bind_called_Inr ret_def)
  have takes: "np_take X_demo [0, 1, 2, 3] = Inr (the_rows X_demo [0, 1, 2, 3])"
    "np_take X_demo [4] = Inr (the_rows X_demo [4])"
    "np_take y_demo [0, 1, 2, 3] = Inr (the_rows y_demo [0, 1, 2, 3])"
    "np_take y_demo [4] = Inr (the_rows y_demo [4])"
    by (simp_all add: np_take_def the_rows_def X_demo_def y_demo_def)
  have split: "\<exists>rs. snd (eval_classical_split demo X_demo y_demo (k, [0, 1, 2, 3], [4])) = Inr rs"
    for k
  proof -
    have "\<exists>l rs. for_each (eval_model demo k (the_rows X_demo [0, 1, 2, 3]) (the_rows X_demo [4])
           (the_rows y_demo [0, 1, 2, 3]) (the_rows y_demo [4])) classical_grids = (l, Inr rs)"
      by (rule for_each_ends_normally) (use model in blast)
    then obtain l rs where fe: "for_each (eval_model demo k (the_rows X_demo [0, 1, 2, 3])
           (the_rows X_demo [4]) (the_rows y_demo [0, 1, 2, 3]) (the_rows y_demo [4]))
           classical_grids = (l, Inr rs)" by blast
    show ?thesis
      unfolding eval_classical_split_def prod.case takes bind_lift_Inr fe by simp
  qed
  have splits: "enumerate_from 1 (sss_split demo 3 (3 / 10) SEED X_demo y_demo) =
      [(1, [0, 1, 2, 3], [4]), (2, [0, 1, 2, 3], [4]), (3, [0, 1, 2, 3], [4])]"
    by (simp add: demo_sss_split enumerate_from_def hold_out_last_def y_demo_def upt_rec
        eval_nat_numeral)
  have "\<exists>l rss. for_each (eval_classical_split demo X_demo y_demo)
      (enumerate_from 1 (sss_split demo 3 (3 / 10) SEED X_demo y_demo)) = (l, Inr rss)"
    unfolding splits by (rule for_each_ends_normally) (use split in auto)
  then show ?thesis
    by (auto simp add: eval_classical_def demo_def bind_Inr ret_def)
qed

theorem eval_classical_twelve_rows_witness:
  "\<exists>calls rows. eval_classical demo X_demo y_demo = (calls, Inr rows) \<and> length rows = 12 \<and>
      map (\<lambda>r. (c_split r, c_model r)) rows =
        List.product [1, 2, 3] [''LogReg'', ''SVM-linear'', ''SVM-poly'', ''SVM-rbf''] \<and>
      list_all (\<lambda>r. 0 \<le> c_acc r \<and> c_acc r \<le> 1 \<and> 0 \<le> c_f1 r \<and> c_f1 r \<le> 1) rows"
proof -
  from demo_eval_classical obtain calls rows where
    run: "eval_classical demo X_demo y_demo = (calls, Inr rows)" by blast
  have three: "length (sss_split demo 3 (3 / 10) SEED (standard_scaler demo X_demo) y_demo) = 3"
    by (simp add: demo_sss_split)
  from eval_classical_twelve_rows [OF run three demo_metrics] run show ?thesis
    by (auto simp add: list_all_iff)
qed

section \<open>Entry point\<close>

lemma module_namespace_unbound:
  "module_namespace ''X_raw'' = None" "module_namespace ''y_raw'' = None"
  "module_namespace ''ad_hoc_data'' = None" "module_namespace ''TRAIN_SIZE'' = None"
  "module_namespace ''TEST_SIZE'' = None"
  by (simp_all add: module_namespace_def module_bindings_def)

lemma read_args_cong:
  assumes "ns ''X_raw'' = ns' ''X_raw''" and "ns ''y_raw'' = ns' ''y_raw''"
  shows "read_args ns = read_args ns'"
proof -
  from assms have "lookup ns ''X_raw'' = lookup ns' ''X_raw''"
    and "lookup ns ''y_raw'' = lookup ns' ''y_raw''"
    by (simp_all add: lookup_def)
  then show ?thesis by (simp only: read_args_def)
qed

lemma main_cong: "read_args ns = read_args ns' \<Longrightarrow> main lib ns w = main lib ns' w"
  by (simp only: main_def)

text \<open>
  C10. No statement of the file binds \<open>X_raw\<close> or \<open>y_raw\<close>, nor \<open>ad_hoc_data\<close>,
  \<open>TRAIN_SIZE\<close> or \<open>TEST_SIZE\<close>, which \<open>load_dataset\<close> reads (it raises at the first of
  them when called). The entry-point block reads no global name but \<open>X_raw\<close> and
  \<open>y_raw\<close>, so it does not go through \<open>load_dataset\<close>; run in the namespace of the
  file it prints its first message and ends with a name error for \<open>X_raw\<close>, having made
  no library call and written no file.
\<close>

theorem main_undefined_names:
  "module_namespace ''X_raw'' = None \<and> module_namespace ''y_raw'' = None
   \<and> module_namespace ''ad_hoc_data'' = None \<and> module_namespace ''TRAIN_SIZE'' = None
   \<and> module_namespace ''TEST_SIZE'' = None
   \<and> load_dataset module_namespace = Inl (NameError ''ad_hoc_data'')
   \<and> (ns ''X_raw'' = ns' ''X_raw'' \<and> ns ''y_raw'' = ns' ''y_raw'' \<longrightarrow> main lib ns w = main lib ns' w)
   \<and> main lib module_namespace w =
        (w\<lparr>console := console w @ [Text ''Evaluando clasicos...'']\<rparr>, [],
         Inl (NameError ''X_raw''))"
proof -
  have ld: "load_dataset module_namespace = Inl (NameError ''ad_hoc_data'')"
    by (simp add: load_dataset_def lookup_def module_namespace_unbound)
  have dep: "ns ''X_raw'' = ns' ''X_raw'' \<and> ns ''y_raw'' = ns' ''y_raw'' \<longrightarrow>
      main lib ns w = main lib ns' w"
    by (blast intro: main_cong read_args_cong)
  have "read_args module_namespace = Inl (NameError ''X_raw'')"
    by (simp add: read_args_def lookup_def module_namespace_unbound)
  then have "main lib module_namespace w =
        (w\<lparr>console := console w @ [Text ''Evaluando clasicos...'']\<rparr>, [],
         Inl (NameError ''X_raw''))"
    by (simp add: main_def print_def)
  with module_namespace_unbound ld dep show ?thesis by blast
qed

theorem main_undefined_names_witness:
  "main demo (module_namespace(''ad_hoc_data'' \<mapsto> Other, ''TRAIN_SIZE'' \<mapsto> IntConst 20,
       ''TEST_SIZE'' \<mapsto> IntConst 5)) empty_world =
     (empty_world\<lparr>console := [Text ''Evaluando clasicos...'']\<rparr>, [], Inl (NameError ''X_raw''))"
proof -
  let ?ns = "module_namespace(''ad_hoc_data'' \<mapsto> Other, ''TRAIN_SIZE'' \<mapsto> IntConst 20,
       ''TEST_SIZE'' \<mapsto> IntConst 5)"
  note t = main_undefined_names [of ?ns module_namespace demo empty_world]
  have "?ns ''X_raw'' = module_namespace ''X_raw'' \<and> ?ns ''y_raw'' = module_namespace ''y_raw''"
    by simp
  with t have "main demo ?ns empty_world = main demo module_namespace empty_world" by blast
  with t show ?thesis by (simp add: empty_world_def)
qed

section \<open>Report aggregator\<close>

lemma sort_values_desc_sorted:
  "sorted_wrt (\<lambda>a b. acc_mean b \<le> acc_mean a) (sort_values_desc df)"
proof -
  have "sorted (map acc_mean (sort_key acc_mean (rev df)))" by simp
  then have "sorted_wrt (\<lambda>a b. acc_mean a \<le> acc_mean b) (sort_key acc_mean (rev df))"
    by (simp add: sorted_wrt_map)
  then show ?thesis
    by (simp add: sort_values_desc_def sorted_wrt_rev)
qed

lemma sort_values_desc_mset: "mset (sort_values_desc df) = mset df"
  by (simp add: sort_values_desc_def)

lemma eval_qsvm_names:
  assumes "eval_qsvm lib X y = (calls, Inr rows)"
  shows "map qmap rows = map fst build_maps"
proof -
  let ?Xs = "minmax_scaler lib (0, pi) X"
  from assms have fe: "for_each (eval_map lib ?Xs y) build_maps = (calls, Inr rows)"
    by (simp add: eval_qsvm_def Let_def)
  from for_each_succeeds [OF fe] obtain ls where len: "length rows = length build_maps"
    and each: "\<forall>i < length build_maps. eval_map lib ?Xs y (build_maps ! i) = (ls ! i, Inr (rows ! i))"
    by blast
  have "qmap (rows ! i) = fst (build_maps ! i)" if "i < length build_maps" for i
  proof -
    from each that have run: "eval_map lib ?Xs y (build_maps ! i) = (ls ! i, Inr (rows ! i))"
      by blast
    obtain name fm where e: "build_maps ! i = (name, fm)" by (cases "build_maps ! i")
    from run show ?thesis
      unfolding e eval_map_def prod.case Let_def
      by (elim bind_succeeds) (auto dest!: ret_succeeds)
  qed
  with len show ?thesis by (intro nth_equalityI) simp_all
qed

text \<open>What the entry-point block leaves when it ends normally, and when it does not.\<close>

lemma main_ends_normally:
  assumes "main lib ns w0 = (w, calls, Inr u)"
  shows "\<exists>X y l1 l2 df_c df_q. read_args ns = Inr (X, y) \<and>
      eval_classical lib X y = (l1, Inr df_c) \<and> eval_qsvm lib X y = (l2, Inr df_q) \<and>
      calls = l1 @ l2 \<and>
      console w = console w0 @ [Text ''Evaluando clasicos...'', GroupedStats df_c,
          Text ''Evaluando Kernles Cuanticos con feature-maps mejorados...'',
          QuantumFrame (sort_values_desc df_q),
          Text (''Resultados guardados en '' @ out_path)] \<and>
      files w = (files w0)(out_path \<mapsto>
          [(''Clasicos'', ClassicalSheet df_c), (''Cuanticos'', QuantumSheet df_q)]) \<and>
      saved w = saved w0 @ [out_path]"
  using assms
  by (auto simp add: main_def Let_def print_def save_workbook_def to_excel_def
      split: sum.splits prod.splits)

lemma main_raises:
  assumes "main lib ns w0 = (w, calls, Inl e)"
  shows "files w = files w0 \<and> saved w = saved w0"
  using assms
  by (auto simp add: main_def Let_def print_def split: sum.splits prod.splits)

lemma demo_read_args: "read_args demo_namespace = Inr (X_demo, y_demo)"
  by (simp add: read_args_def lookup_def demo_namespace_def as_features_def as_labels_def)

lemma demo_main:
  "\<exists>w calls df_c. main demo demo_namespace empty_world = (w, calls, Inr ()) \<and>
      saved w = [out_path] \<and>
      files w out_path = Some [(''Clasicos'', ClassicalSheet df_c),
        (''Cuanticos'', QuantumSheet
           [\<lparr>qmap = ''ZF-reps1'', acc_mean = 0, acc_std = 0, f1_mean = 0\<rparr>,
            \<lparr>qmap = ''ZF-reps2'', acc_mean = 0, acc_std = 0, f1_mean = 0\<rparr>,
            \<lparr>qmap = ''ZF-alpha05'', acc_mean = 0, acc_std = 0, f1_mean = 0\<rparr>,
            \<lparr>qmap = ''ZF-LinEnt'', acc_mean = 1, acc_std = 0, f1_mean = 1\<rparr>,
            \<lparr>qmap = ''ZF-alpha05-LinEnt'', acc_mean = 1, acc_std = 0, f1_mean = 1\<rparr>])]"
proof -
  from demo_eval_classical obtain l1 df_c where
    c: "eval_classical demo X_demo y_demo = (l1, Inr df_c)" by blast
  from demo_eval_qsvm obtain l2 where
    q: "eval_qsvm demo X_demo y_demo =
     (l2, Inr [\<lparr>qmap = ''ZF-reps1'', acc_mean = 0, acc_std = 0, f1_mean = 0\<rparr>,
                 \<lparr>qmap = ''ZF-reps2'', acc_mean = 0, acc_std = 0, f1_mean = 0\<rparr>,
                 \<lparr>qmap = ''ZF-alpha05'', acc_mean = 0, acc_std = 0, f1_mean = 0\<rparr>,
                 \<lparr>qmap = ''ZF-LinEnt'', acc_mean = 1, acc_std = 0, f1_mean = 1\<rparr>,
                 \<lparr>qmap = ''ZF-alpha05-LinEnt'', acc_mean = 1, acc_std = 0, f1_mean = 1\<rparr>])"
    by (elim exE)
  show ?thesis
    by (simp add: main_def demo_read_args c q Let_def print_def save_workbook_def to_excel_def
        empty_world_def)
qed

text \<open>
  C3, as the code has it. When the entry point ends normally, what it prints for the
  quantum table is a copy of the evaluator's rows sorted by descending mean accuracy (the
  same rows, each mean at least the next one); the sheet \<open>Cuanticos\<close> of the saved
  workbook holds the evaluator's rows as they were returned, in catalog order.
\<close>

theorem quantum_rows_printed_sorted_saved_unsorted:
  assumes "main lib ns w0 = (w, calls, Inr u)"
  shows "\<exists>X y l df_q. read_args ns = Inr (X, y) \<and> eval_qsvm lib X y = (l, Inr df_q) \<and>
      QuantumFrame (sort_values_desc df_q) \<in> set (console w) \<and>
      sorted_wrt (\<lambda>a b. acc_mean b \<le> acc_mean a) (sort_values_desc df_q) \<and>
      mset (sort_values_desc df_q) = mset df_q \<and>
      quantum_sheet w out_path ''Cuanticos'' = Some df_q \<and>
      map qmap df_q = map fst build_maps"
proof -
  from main_ends_normally [OF assms] obtain X y l1 l2 df_c df_q where
    args: "read_args ns = Inr (X, y)" and q: "eval_qsvm lib X y = (l2, Inr df_q)" and
    con: "console w = console w0 @ [Text ''Evaluando clasicos...'', GroupedStats df_c,
          Text ''Evaluando Kernles Cuanticos con feature-maps mejorados...'',
          QuantumFrame (sort_values_desc df_q),
          Text (''Resultados guardados en '' @ out_path)]" and
    fil: "files w = (files w0)(out_path \<mapsto>
          [(''Clasicos'', ClassicalSheet df_c), (''Cuanticos'', QuantumSheet df_q)])"
    by blast
  from con have "QuantumFrame (sort_values_desc df_q) \<in> set (console w)" by simp
  moreover from fil have "quantum_sheet w out_path ''Cuanticos'' = Some df_q"
    by (simp add: quantum_sheet_def)
  ultimately show ?thesis
    using args q sort_values_desc_sorted [of df_q] sort_values_desc_mset [of df_q]
      eval_qsvm_names [OF q] by blast
qed

theorem quantum_rows_printed_sorted_saved_unsorted_witness:
  "\<exists>l df_q. eval_qsvm demo X_demo y_demo = (l, Inr df_q) \<and>
      QuantumFrame (sort_values_desc df_q) \<in> set (console (fst (main demo demo_namespace empty_world))) \<and>
      quantum_sheet (fst (main demo demo_namespace empty_world)) out_path ''Cuanticos'' = Some df_q"
proof -
  from demo_main obtain w calls where run: "main demo demo_namespace empty_world = (w, calls, Inr ())"
    by blast
  from quantum_rows_printed_sorted_saved_unsorted [OF run] run show ?thesis
    by (auto simp add: demo_read_args)
qed

theorem quantum_sheet_sorted_counterexample:
  "map_option (map acc_mean) (quantum_sheet (fst (main demo demo_namespace empty_world)) out_path ''Cuanticos'')
     = Some [0, 0, 0, 1, 1]
   \<and> map_option (\<lambda>rows. map acc_mean (sort_values_desc rows))
       (quantum_sheet (fst (main demo demo_namespace empty_world)) out_path ''Cuanticos'')
     = Some [1, 1, 0, 0, 0]"
proof -
  from demo_main obtain w calls df_c where run: "main demo demo_namespace empty_world = (w, calls, Inr ())"
    and f: "files w out_path = Some [(''Clasicos'', ClassicalSheet df_c),
        (''Cuanticos'', QuantumSheet
           [\<lparr>qmap = ''ZF-reps1'', acc_mean = 0, acc_std = 0, f1_mean = 0\<rparr>,
            \<lparr>qmap = ''ZF-reps2'', acc_mean = 0, acc_std = 0, f1_mean = 0\<rparr>,
            \<lparr>qmap = ''ZF-alpha05'', acc_mean = 0, acc_std = 0, f1_mean = 0\<rparr>,
            \<lparr>qmap = ''ZF-LinEnt'', acc_mean = 1, acc_std = 0, f1_mean = 1\<rparr>,
            \<lparr>qmap = ''ZF-alpha05-LinEnt'', acc_mean = 1, acc_std = 0, f1_mean = 1\<rparr>])]"
    by blast
  show ?thesis
    by (simp add: run quantum_sheet_def f sort_values_desc_def)
qed

text \<open>
  C4, as the code has it. A run of the entry point that ends normally has saved exactly
  one file, at \<open>Resultados_IrisLineal_QBoost.xlsx\<close>, replacing whatever was there, after
  both evaluations and before its last message; the workbook has exactly two sheets,
  \<open>Clasicos\<close> with the classical rows and \<open>Cuanticos\<close> with the quantum rows, in this
  order. A run that raises saves nothing.
\<close>

theorem workbook_two_sheets_saved_once:
  assumes "main lib ns w0 = (w, calls, r)"
  shows "(case r of
            Inr u \<Rightarrow>
              (\<exists>df_c df_q. files w = (files w0)(out_path \<mapsto>
                   [(''Clasicos'', ClassicalSheet df_c), (''Cuanticos'', QuantumSheet df_q)]))
              \<and> sheet_names w out_path = Some [''Clasicos'', ''Cuanticos'']
              \<and> saved w = saved w0 @ [out_path]
              \<and> last (console w) = Text (''Resultados guardados en '' @ out_path)
          | Inl e \<Rightarrow> files w = files w0 \<and> saved w = saved w0)"
proof (cases r)
  case (Inl e)
  with assms main_raises [of lib ns w0 w calls e] show ?thesis by simp
next
  case (Inr u)
  with assms have "main lib ns w0 = (w, calls, Inr u)" by simp
  from main_ends_normally [OF this] obtain df_c df_q where
    con: "\<exists>pre. console w = pre @ [Text (''Resultados guardados en '' @ out_path)]" and
    fil: "files w = (files w0)(out_path \<mapsto>
          [(''Clasicos'', ClassicalSheet df_c), (''Cuanticos'', QuantumSheet df_q)])" and
    sav: "saved w = saved w0 @ [out_path]"
    by force
  from con have "last (console w) = Text (''Resultados guardados en '' @ out_path)" by auto
  moreover from fil have "sheet_names w out_path = Some [''Clasicos'', ''Cuanticos'']"
    by (simp add: sheet_names_def)
  ultimately show ?thesis using Inr fil sav by auto
qed

theorem workbook_two_sheets_saved_once_witness:
  "snd (snd (main demo demo_namespace empty_world)) = Inr ()
   \<and> saved (fst (main demo demo_namespace empty_world)) = [out_path]
   \<and> last (console (fst (main demo demo_namespace empty_world))) =
        Text (''Resultados guardados en '' @ out_path)"
proof -
  from demo_main obtain w calls where run: "main demo demo_namespace empty_world = (w, calls, Inr ())"
    by blast
  from workbook_two_sheets_saved_once [OF run] run show ?thesis
    by (simp add: empty_world_def)
qed

theorem sheet_names_counterexample:
  "sheet_names (fst (main demo demo_namespace empty_world)) out_path = Some [''Clasicos'', ''Cuanticos'']
   \<and> sheet_names (fst (main demo demo_namespace empty_world)) out_path
       \<noteq> Some [''Classical Results'', ''Quantum Results'']"
proof -
  from demo_main obtain w calls df_c df_q where run: "main demo demo_namespace empty_world = (w, calls, Inr ())"
    and f: "files w out_path = Some [(''Clasicos'', ClassicalSheet df_c), (''Cuanticos'', QuantumSheet df_q)]"
    by blast
  show ?thesis
    by (simp add: run sheet_names_def f)
qed

end
